theory Spec2Isabelle
  imports Complex_Main "HOL-Library.AList"
begin

section \<open>Python values and exceptions\<close>

text \<open>
  The agent is Python. Its floats are modelled as exact reals (no rounding), its strings
  as \<open>string\<close>, its dictionaries as association lists in insertion order (\<open>map_of\<close>
  reads a key, \<open>AList.update\<close> assigns one and keeps the key's position). An exception
  is a value: its class and the text \<open>str(e)\<close> that the handlers write to the log.
\<close>

datatype exn_kind =
    KeyError | TypeError | ValueError | JSONDecodeError | AttributeError | RecursionError
  | IntegrityError | OperationalError | InterfaceError
  | Redirect | Forbidden | OtherError

type_synonym exn = "exn_kind \<times> string"

datatype pyval = PNum real | PStr string | PList "string list" | PNone

type_synonym pydict = "(string \<times> pyval) list"

datatype level = ERROR | WARNING

type_synonym log_record = "level \<times> string"

section \<open>The content source (PRAW objects)\<close>

text \<open>
  What reading \<open>submission.comments\<close> can do: the attribute is absent (\<open>hasattr\<close> is
  false), reading it raises something other than \<open>AttributeError\<close> (\<open>hasattr\<close> lets that
  through), iterating it raises, or it yields a number of comments.
\<close>

datatype comments_attr = NoAttr | AccessRaises exn | IterRaises | CommentList nat

text \<open>
  \<open>score\<close> and \<open>created_utc\<close> are read with \<open>getattr\<close> and a default in the analyzer,
  so they are optional here; \<open>sub_author\<close> and \<open>sub_subreddit\<close> are the texts
  \<open>str(submission.author)\<close> and \<open>str(submission.subreddit)\<close>.
\<close>

record submission =
  sub_id :: string
  sub_title :: string
  sub_selftext :: string
  sub_author :: string
  sub_subreddit :: string
  sub_created_utc :: "real option"
  sub_score :: "int option"
  sub_comments :: comments_attr
  sub_stickied :: bool

section \<open>database.py\<close>

datatype sqlval = SqlReal real | SqlText string | SqlNull

text \<open>Binding a Python value to a statement parameter: sqlite3 refuses a list.\<close>

fun bind_param :: "pyval \<Rightarrow> exn + sqlval" where
  "bind_param (PNum r) = Inr (SqlReal r)"
| "bind_param (PStr s) = Inr (SqlText s)"
| "bind_param PNone = Inr SqlNull"
| "bind_param (PList xs) = Inl (InterfaceError, ''Error binding parameter'')"

text \<open>
  Table \<open>submissions\<close>, one field per column. The column \<open>topics\<close> holds
  \<open>json.dumps(analysis['topics'])\<close>; the row keeps the value that text encodes.
\<close>

record submission_row =
  submission_id :: string
  title :: string
  content :: string
  author :: string
  subreddit :: string
  created_utc :: real
  processed_at :: real
  sentiment :: sqlval
  topics :: pyval
  engagement_score :: sqlval
  utility_score :: real

text \<open>
  The payload of a learned pattern, the dictionary that \<open>_learn_from_submission\<close> builds
  and \<open>store_pattern\<close> serialises into the column \<open>pattern_data\<close>.
\<close>

record pattern_payload =
  title_length :: nat
  content_length :: nat
  post_time :: nat
  payload_topics :: pyval

text \<open>Table \<open>learned_patterns\<close>; \<open>pattern_id\<close> is the AUTOINCREMENT key.\<close>

record pattern_row =
  pattern_id :: nat
  pattern_subreddit :: string
  pattern_type :: string
  pattern_data :: pattern_payload
  confidence :: real
  pattern_utility_score :: real
  last_updated :: real

text \<open>
  The database file: whether \<open>sqlite3.connect\<close> can open it, the two tables the agent
  uses in insertion (rowid) order, and the AUTOINCREMENT counter. The table
  \<open>action_outcomes\<close> is created and never read or written.
\<close>

record database =
  db_available :: bool
  submissions :: "submission_row list"
  learned_patterns :: "pattern_row list"
  next_pattern_id :: nat

definition unavailable :: exn where
  "unavailable = (OperationalError, ''unable to open database file'')"

text \<open>\<open>setup_database\<close> on a fresh file: the tables exist and are empty.\<close>

definition setup_database :: database where
  "setup_database =
     \<lparr>db_available = True, submissions = [], learned_patterns = [], next_pattern_id = 1\<rparr>"

definition is_submission_processed :: "database \<Rightarrow> string \<Rightarrow> exn + bool" where
  "is_submission_processed d sid =
     (if \<not> db_available d then Inl unavailable
      else Inr (sid \<in> set (map submission_id (submissions d))))"

text \<open>
  \<open>store_submission\<close>: the connection is opened, the parameter tuple is built (reading
  \<open>created_utc\<close>, \<open>analysis['sentiment']\<close>, \<open>analysis['topics']\<close> and
  \<open>analysis.get('engagement_rate', 0.0)\<close>), the values are bound, and the INSERT runs.
  \<open>submission_id\<close> is the table's PRIMARY KEY, so the INSERT of an identifier that is
  already there raises \<open>IntegrityError\<close> and leaves the table as it was.
\<close>

definition store_submission ::
  "database \<Rightarrow> real \<Rightarrow> submission \<Rightarrow> pydict \<Rightarrow> real \<Rightarrow> exn + database" where
  "store_submission d now s analysis u =
     (if \<not> db_available d then Inl unavailable
      else case sub_created_utc s of
        None \<Rightarrow> Inl (AttributeError, ''created_utc'')
      | Some t \<Rightarrow>
     (case map_of analysis ''sentiment'' of
        None \<Rightarrow> Inl (KeyError, ''sentiment'')
      | Some sv \<Rightarrow>
     (case map_of analysis ''topics'' of
        None \<Rightarrow> Inl (KeyError, ''topics'')
      | Some tv \<Rightarrow>
     (case bind_param sv of
        Inl e \<Rightarrow> Inl e
      | Inr sq \<Rightarrow>
     (case bind_param (case map_of analysis ''engagement_rate'' of
                         None \<Rightarrow> PNum 0 | Some ev \<Rightarrow> ev) of
        Inl e \<Rightarrow> Inl e
      | Inr eq \<Rightarrow>
        if sub_id s \<in> set (map submission_id (submissions d))
        then Inl (IntegrityError, ''UNIQUE constraint failed: submissions.submission_id'')
        else Inr (d\<lparr>submissions := submissions d @
               [\<lparr>submission_id = sub_id s, title = sub_title s, content = sub_selftext s,
                 author = sub_author s, subreddit = sub_subreddit s, created_utc = t,
                 processed_at = now, sentiment = sq, topics = tv,
                 engagement_score = eq, utility_score = u\<rparr>]\<rparr>))))))"

definition store_pattern ::
  "database \<Rightarrow> real \<Rightarrow> string \<Rightarrow> string \<Rightarrow> pattern_payload \<Rightarrow> real \<Rightarrow> exn + database" where
  "store_pattern d now sr ptype pdata conf =
     (if \<not> db_available d then Inl unavailable
      else Inr (d\<lparr>learned_patterns := learned_patterns d @
               [\<lparr>pattern_id = next_pattern_id d, pattern_subreddit = sr,
                 pattern_type = ptype, pattern_data = pdata, confidence = conf,
                 pattern_utility_score = conf, last_updated = now\<rparr>],
             next_pattern_id := Suc (next_pattern_id d)\<rparr>))"

text \<open>
  \<open>get_patterns\<close>: the rows of one subreddit, \<open>ORDER BY confidence DESC\<close>. Rows of equal
  confidence are taken to come back in rowid order (SQL leaves their order open).
\<close>

definition order_desc :: "('a \<Rightarrow> real) \<Rightarrow> 'a list \<Rightarrow> 'a list" where
  "order_desc k xs = sort_key (\<lambda>x. - k x) xs"

definition get_patterns :: "database \<Rightarrow> string \<Rightarrow> exn + pattern_row list" where
  "get_patterns d sr =
     (if \<not> db_available d then Inl unavailable
      else Inr (order_desc confidence
                  (filter (\<lambda>p. pattern_subreddit p = sr) (learned_patterns d))))"

text \<open>
  Any sequence of calls of \<open>store_submission\<close> on one database; a call that raises
  leaves the table as it was.
\<close>

record store_call =
  call_now :: real
  call_submission :: submission
  call_analysis :: pydict
  call_utility :: real

definition store_or_keep :: "database \<Rightarrow> store_call \<Rightarrow> database" where
  "store_or_keep d c =
     (case store_submission d (call_now c) (call_submission c) (call_analysis c)
             (call_utility c) of
        Inl e \<Rightarrow> d
      | Inr d' \<Rightarrow> d')"

fun store_all :: "database \<Rightarrow> store_call list \<Rightarrow> database" where
  "store_all d [] = d"
| "store_all d (c # cs) = store_all (store_or_keep d c) cs"

section \<open>models.py\<close>

record UtilityMetrics =
  engagement_rate :: real
  sentiment_score :: real
  relevance_score :: real
  novelty_score :: real

section \<open>analysis.py\<close>

definition analyze_submission :: "submission \<Rightarrow> pydict" where
  "analyze_submission s = [(''sentiment'', PNum 0.5), (''topics'', PList [''general''])]"

text \<open>
  The comment count of \<open>calculate_engagement_rate\<close>: 0 when the attribute is absent or
  its iteration raises; an exception of \<open>hasattr\<close> itself leaves the inner \<open>try\<close>.
\<close>

fun count_comments :: "comments_attr \<Rightarrow> exn + nat" where
  "count_comments NoAttr = Inr 0"
| "count_comments (AccessRaises e) = Inl e"
| "count_comments IterRaises = Inr 0"
| "count_comments (CommentList n) = Inr n"

text \<open>
  \<open>calculate_engagement_rate\<close>, given the reading \<open>current_time\<close> of
  \<open>datetime.utcnow().timestamp()\<close> (\<open>utcnow_timestamp\<close> below): the rate and the
  warnings it logs. The outer handler
  turns any exception into the rate 0.0.
\<close>

definition calculate_engagement_rate :: "real \<Rightarrow> submission \<Rightarrow> real \<times> log_record list" where
  "calculate_engagement_rate current_time s =
     (case count_comments (sub_comments s) of
        Inl e \<Rightarrow> (0, [(WARNING, ''Error calculating engagement rate: '' @ snd e)])
      | Inr comment_count \<Rightarrow>
          (let score = (case sub_score s of None \<Rightarrow> 0 | Some v \<Rightarrow> v);
               total_engagement = real_of_int (score + int comment_count);
               submission_time =
                 (case sub_created_utc s of None \<Rightarrow> current_time | Some t \<Rightarrow> t);
               time_factor = max 1 ((current_time - submission_time) / 3600)
           in (min 1 (total_engagement / (100 * time_factor)), [])))"

definition calculate_relevance :: "submission \<Rightarrow> pydict \<Rightarrow> real" where
  "calculate_relevance s analysis = 0.5"

definition calculate_novelty :: "submission \<Rightarrow> pydict \<Rightarrow> real" where
  "calculate_novelty s analysis = 0.5"

section \<open>agent.py\<close>

text \<open>The dictionary \<open>utility_weights\<close>, one field per key.\<close>

record weights =
  w_engagement :: real
  w_sentiment :: real
  w_relevance :: real
  w_novelty :: real

record config =
  learning_rate :: real
  utility_weights :: weights

text \<open>The configuration when no environment variable is set.\<close>

definition default_config :: config where
  "default_config =
     \<lparr>learning_rate = 0.1,
      utility_weights =
        \<lparr>w_engagement = 0.4, w_sentiment = 0.2, w_relevance = 0.2, w_novelty = 0.2\<rparr>\<rparr>"

text \<open>
  What the agent takes from the Python runtime: the time \<open>datetime.now().timestamp()\<close>
  (seconds since the epoch, one reading for a run), the local zone's offset from UTC in
  seconds at an instant, and the built-in conversion of a string to a float (\<open>None\<close>
  where \<open>float(s)\<close> raises \<open>ValueError\<close>).
\<close>

record runtime =
  now_ts :: real
  utc_offset :: "real \<Rightarrow> int"
  float_of_str :: "string \<Rightarrow> real option"

text \<open>
  \<open>datetime.utcnow().timestamp()\<close>: \<open>utcnow()\<close> is the UTC wall clock as a naive
  datetime, and \<open>timestamp()\<close> reads a naive datetime as local time, so the reading is
  the time less the local zone's offset (the offset in force now). It is the time itself
  only where the local zone is UTC.
\<close>

definition utcnow_timestamp :: "runtime \<Rightarrow> real" where
  "utcnow_timestamp rt = now_ts rt - real_of_int (utc_offset rt (now_ts rt))"

text \<open>
  The agent's mutable state: the database, the in-memory \<open>subreddit_models\<close>, and what
  has been written to the log.
\<close>

record agent_state =
  db :: database
  subreddit_models :: "string \<Rightarrow> pydict option"
  logs :: "log_record list"

definition calculate_utility :: "weights \<Rightarrow> UtilityMetrics \<Rightarrow> real" where
  "calculate_utility w metrics =
     w_engagement w * engagement_rate metrics +
     w_sentiment w * sentiment_score metrics +
     w_relevance w * relevance_score metrics +
     w_novelty w * novelty_score metrics"

text \<open>The built-in \<open>float(v)\<close>.\<close>

fun py_float :: "(string \<Rightarrow> real option) \<Rightarrow> pyval \<Rightarrow> exn + real" where
  "py_float f (PNum r) = Inr r"
| "py_float f (PStr s) =
     (case f s of
        None \<Rightarrow> Inl (ValueError, ''could not convert string to float'')
      | Some r \<Rightarrow> Inr r)"
| "py_float f (PList xs) = Inl (TypeError, ''float() argument must be a string or a number'')"
| "py_float f PNone = Inl (TypeError, ''float() argument must be a string or a number'')"

text \<open>
  One iteration of the loop of \<open>update_model\<close> over \<open>new_data.items()\<close>, on the
  subreddit's dictionary and the log.
\<close>

definition update_key ::
  "config \<Rightarrow> runtime \<Rightarrow> string \<Rightarrow> pyval \<Rightarrow> pydict \<times> log_record list
     \<Rightarrow> pydict \<times> log_record list" where
  "update_key cfg rt key v ml =
     (if key = ''topics'' then (AList.update key v (fst ml), snd ml)
      else
        case py_float (float_of_str rt)
               (case map_of (fst ml) key of None \<Rightarrow> PNum 0 | Some ov \<Rightarrow> ov) of
          Inl e \<Rightarrow>
            (AList.update key v (fst ml),
             snd ml @ [(WARNING, ''Could not update model for key '' @ key @ '': '' @ snd e)])
        | Inr old_value \<Rightarrow>
            (case py_float (float_of_str rt) v of
               Inl e \<Rightarrow>
                 (AList.update key v (fst ml),
                  snd ml @
                    [(WARNING, ''Could not update model for key '' @ key @ '': '' @ snd e)])
             | Inr new_value \<Rightarrow>
                 (AList.update key
                    (PNum ((1 - learning_rate cfg) * old_value
                           + learning_rate cfg * new_value)) (fst ml),
                  snd ml)))"

fun update_items ::
  "config \<Rightarrow> runtime \<Rightarrow> pydict \<Rightarrow> pydict \<times> log_record list \<Rightarrow> pydict \<times> log_record list" where
  "update_items cfg rt [] ml = ml"
| "update_items cfg rt (kv # rest) ml =
     update_items cfg rt rest (update_key cfg rt (fst kv) (snd kv) ml)"

definition update_model ::
  "config \<Rightarrow> runtime \<Rightarrow> string \<Rightarrow> pydict \<Rightarrow> agent_state \<Rightarrow> agent_state" where
  "update_model cfg rt sr new_data st =
     (case subreddit_models st sr of
        None \<Rightarrow> st\<lparr>subreddit_models := (subreddit_models st)(sr \<mapsto> new_data)\<rparr>
      | Some m \<Rightarrow>
          (let ml = update_items cfg rt new_data (m, logs st)
           in st\<lparr>subreddit_models := (subreddit_models st)(sr \<mapsto> fst ml),
                 logs := snd ml\<rparr>))"

text \<open>
  \<open>datetime.fromtimestamp(t).hour\<close>: the hour of the local wall clock; a local time
  outside the years 1 to 9999 raises.
\<close>

definition fromtimestamp_hour :: "(real \<Rightarrow> int) \<Rightarrow> real \<Rightarrow> exn + nat" where
  "fromtimestamp_hour off t =
     (let local = \<lfloor>t\<rfloor> + off t
      in if local < - 62135596800 \<or> 253402300800 \<le> local
         then Inl (ValueError, ''year is out of range'')
         else Inr (nat ((local div 3600) mod 24)))"

definition learn_from_submission ::
  "runtime \<Rightarrow> database \<Rightarrow> submission \<Rightarrow> pydict \<Rightarrow> real \<Rightarrow> exn + database" where
  "learn_from_submission rt d s analysis utility =
     (case sub_created_utc s of
        None \<Rightarrow> Inl (AttributeError, ''created_utc'')
      | Some t \<Rightarrow>
     (case fromtimestamp_hour (utc_offset rt) t of
        Inl e \<Rightarrow> Inl e
      | Inr h \<Rightarrow>
     (case map_of analysis ''topics'' of
        None \<Rightarrow> Inl (KeyError, ''topics'')
      | Some tv \<Rightarrow>
          store_pattern d (now_ts rt) (sub_subreddit s) ''successful_post''
            \<lparr>title_length = length (sub_title s),
             content_length = length (sub_selftext s),
             post_time = h, payload_topics = tv\<rparr>
            utility)))"

text \<open>An operand of the float arithmetic in \<open>calculate_utility\<close>.\<close>

fun float_operand :: "pyval \<Rightarrow> exn + real" where
  "float_operand (PNum r) = Inr r"
| "float_operand v = Inl (TypeError, ''unsupported operand type'')"

text \<open>An element of the list that \<open>process_subreddit\<close> returns.\<close>

record processed_entry =
  entry_id :: string
  entry_title :: string
  entry_utility_score :: real
  entry_metrics :: UtilityMetrics

text \<open>
  The metrics of a submission and its utility score, as the loop body computes them
  (the engagement rate's warnings are the second component).
\<close>

definition submission_metrics :: "runtime \<Rightarrow> submission \<Rightarrow> real \<Rightarrow> UtilityMetrics" where
  "submission_metrics rt s sent =
     \<lparr>engagement_rate = fst (calculate_engagement_rate (utcnow_timestamp rt) s),
      sentiment_score = sent,
      relevance_score = calculate_relevance s (analyze_submission s),
      novelty_score = calculate_novelty s (analyze_submission s)\<rparr>"

text \<open>
  The body of the inner \<open>try\<close> of \<open>process_subreddit\<close> for one submission: the state
  it leaves, and either the exception it raised, \<open>None\<close> for a submission already
  processed, or the entry appended to \<open>processed_submissions\<close>. What was written before
  an exception stays written.
\<close>

definition process_submission ::
  "config \<Rightarrow> runtime \<Rightarrow> string \<Rightarrow> agent_state \<Rightarrow> submission
     \<Rightarrow> agent_state \<times> (exn + processed_entry option)" where
  "process_submission cfg rt subreddit_name st s =
     (case is_submission_processed (db st) (sub_id s) of
        Inl e \<Rightarrow> (st, Inl e)
      | Inr True \<Rightarrow> (st, Inr None)
      | Inr False \<Rightarrow>
          (let analysis = analyze_submission s;
               st0 = st\<lparr>logs := logs st @ snd (calculate_engagement_rate (utcnow_timestamp rt) s)\<rparr>
           in case map_of analysis ''sentiment'' of
                None \<Rightarrow> (st0, Inl (KeyError, ''sentiment''))
              | Some sv \<Rightarrow>
            (case float_operand sv of
               Inl e \<Rightarrow> (st0, Inl e)
             | Inr sent \<Rightarrow>
            (let metrics = submission_metrics rt s sent;
                 utility = calculate_utility (utility_weights cfg) metrics
             in case store_submission (db st0) (now_ts rt) s analysis utility of
                  Inl e \<Rightarrow> (st0, Inl e)
                | Inr d1 \<Rightarrow>
                   (let st1 = update_model cfg rt subreddit_name
                                [(''avg_engagement'', PNum (engagement_rate metrics)),
                                 (''avg_sentiment'', PNum (sentiment_score metrics)),
                                 (''avg_relevance'', PNum (relevance_score metrics)),
                                 (''avg_novelty'', PNum (novelty_score metrics))]
                                (st0\<lparr>db := d1\<rparr>);
                        entry = \<lparr>entry_id = sub_id s, entry_title = sub_title s,
                                 entry_utility_score = utility,
                                 entry_metrics = metrics\<rparr>
                    in if utility > 0.7
                       then (case learn_from_submission rt (db st1) s analysis utility of
                               Inl e \<Rightarrow> (st1, Inl e)
                             | Inr d2 \<Rightarrow> (st1\<lparr>db := d2\<rparr>, Inr (Some entry)))
                       else (st1, Inr (Some entry)))))))"

text \<open>
  What iterating \<open>subreddit.new(limit=limit)\<close> does: it ends, yields a submission and
  goes on, or raises.
\<close>

datatype 'a listing = Stop | Yield 'a "'a listing" | Raises exn

text \<open>The submissions a listing yields, in order.\<close>

fun listing_items :: "'a listing \<Rightarrow> 'a list" where
  "listing_items Stop = []"
| "listing_items (Raises e) = []"
| "listing_items (Yield s rest) = s # listing_items rest"

record subreddit_handle =
  subreddit_type :: "exn + string"
  new_listing :: "int \<Rightarrow> submission listing"

definition log_error :: "string \<Rightarrow> agent_state \<Rightarrow> agent_state" where
  "log_error msg st = st\<lparr>logs := logs st @ [(ERROR, msg)]\<rparr>"

text \<open>
  The \<open>for\<close> loop of \<open>process_subreddit\<close>: an exception of the body is logged and the
  loop goes on; an exception of the iterator leaves the loop.
\<close>

fun process_listing ::
  "config \<Rightarrow> runtime \<Rightarrow> string \<Rightarrow> submission listing \<Rightarrow> agent_state
     \<Rightarrow> processed_entry list \<Rightarrow> agent_state \<times> (exn + processed_entry list)" where
  "process_listing cfg rt subreddit_name Stop st acc = (st, Inr acc)"
| "process_listing cfg rt subreddit_name (Raises e) st acc = (st, Inl e)"
| "process_listing cfg rt subreddit_name (Yield s rest) st acc =
     (case process_submission cfg rt subreddit_name st s of
        (st', Inl e) \<Rightarrow>
          process_listing cfg rt subreddit_name rest
            (log_error (''Error processing submission '' @ sub_id s @ '': '' @ snd e) st') acc
      | (st', Inr None) \<Rightarrow> process_listing cfg rt subreddit_name rest st' acc
      | (st', Inr (Some entry)) \<Rightarrow>
          process_listing cfg rt subreddit_name rest st' (acc @ [entry]))"

definition private_message :: "string \<Rightarrow> string" where
  "private_message subreddit_name =
     ''Subreddit '' @ subreddit_name @ '' is private and cannot be accessed''"

definition redirect_message :: "string \<Rightarrow> string" where
  "redirect_message subreddit_name = ''Subreddit '' @ subreddit_name @ '' does not exist''"

definition forbidden_message :: "string \<Rightarrow> string" where
  "forbidden_message subreddit_name =
     ''Access to subreddit '' @ subreddit_name @ '' is forbidden''"

definition generic_message :: "string \<Rightarrow> exn \<Rightarrow> string" where
  "generic_message subreddit_name e =
     ''Error processing subreddit '' @ subreddit_name @ '': '' @ snd e"

text \<open>The body of the outer \<open>try\<close> of \<open>process_subreddit\<close>.\<close>

definition process_subreddit_body ::
  "config \<Rightarrow> runtime \<Rightarrow> (string \<Rightarrow> subreddit_handle) \<Rightarrow> string \<Rightarrow> int \<Rightarrow> agent_state
     \<Rightarrow> agent_state \<times> (exn + processed_entry list)" where
  "process_subreddit_body cfg rt reddit subreddit_name limit st =
     (case subreddit_type (reddit subreddit_name) of
        Inl e \<Rightarrow> (st, Inl e)
      | Inr ty \<Rightarrow>
          if ty = ''private''
          then (log_error (private_message subreddit_name) st, Inr [])
          else process_listing cfg rt subreddit_name
                 (new_listing (reddit subreddit_name) limit) st [])"

text \<open>
  \<open>process_subreddit\<close>: the body under its three handlers. The result is a sum so that
  an exception reaching the caller would show as \<open>Inl\<close>.
\<close>

definition process_subreddit ::
  "config \<Rightarrow> runtime \<Rightarrow> (string \<Rightarrow> subreddit_handle) \<Rightarrow> string \<Rightarrow> int \<Rightarrow> agent_state
     \<Rightarrow> agent_state \<times> (exn + processed_entry list)" where
  "process_subreddit cfg rt reddit subreddit_name limit st =
     (case process_subreddit_body cfg rt reddit subreddit_name limit st of
        (st', Inr processed_submissions) \<Rightarrow> (st', Inr processed_submissions)
      | (st', Inl e) \<Rightarrow>
          if fst e = Redirect then (log_error (redirect_message subreddit_name) st', Inr [])
          else if fst e = Forbidden
          then (log_error (forbidden_message subreddit_name) st', Inr [])
          else (log_error (generic_message subreddit_name e) st', Inr []))"

text \<open>The decimal text of a number, as an f-string prints an \<open>int\<close>.\<close>

fun show_nat :: "nat \<Rightarrow> string" where
  "show_nat n =
     (if n < 10 then [char_of (48 + n)]
      else show_nat (n div 10) @ [char_of (48 + n mod 10)])"

declare show_nat.simps [simp del]

text \<open>\<open>sep.join(xs)\<close> for a list of strings, and for the values \<open>topics\<close> can hold.\<close>

fun join :: "string \<Rightarrow> string list \<Rightarrow> string" where
  "join sep [] = []"
| "join sep [x] = x"
| "join sep (x # y # ys) = x @ sep @ join sep (y # ys)"

fun join_value :: "string \<Rightarrow> pyval \<Rightarrow> exn + string" where
  "join_value sep (PList xs) = Inr (join sep xs)"
| "join_value sep (PStr s) = Inr (join sep (map (\<lambda>c. [c]) s))"
| "join_value sep v = Inl (TypeError, ''can only join an iterable'')"

definition generate_suggestion :: "pattern_row \<Rightarrow> pydict \<Rightarrow> exn + string" where
  "generate_suggestion pattern model_data =
     (if pattern_type pattern = ''successful_post''
      then (case join_value '', '' (payload_topics (pattern_data pattern)) of
              Inl e \<Rightarrow> Inl e
            | Inr ts \<Rightarrow>
                Inr (''Consider posting during hour ''
                     @ show_nat (post_time (pattern_data pattern))
                     @ '' with content length around ''
                     @ show_nat (content_length (pattern_data pattern))
                     @ '' characters focusing on topics: '' @ ts))
      else Inr ''No specific suggestion available'')"

record recommendation =
  rec_type :: string
  rec_confidence :: real
  rec_suggestion :: string

text \<open>The loop of \<open>get_recommendations\<close> over \<open>best_patterns\<close>.\<close>

fun recommend_all :: "pattern_row list \<Rightarrow> pydict \<Rightarrow> exn + recommendation list" where
  "recommend_all [] model_data = Inr []"
| "recommend_all (pattern # rest) model_data =
     (case generate_suggestion pattern model_data of
        Inl e \<Rightarrow> Inl e
      | Inr sg \<Rightarrow>
          (case recommend_all rest model_data of
             Inl e \<Rightarrow> Inl e
           | Inr recs \<Rightarrow>
               Inr (\<lparr>rec_type = pattern_type pattern,
                     rec_confidence = confidence pattern,
                     rec_suggestion = sg\<rparr> # recs)))"

text \<open>
  \<open>get_recommendations\<close>. \<open>sorted(..., reverse=True)\<close> is stable: patterns of equal
  confidence keep the order \<open>get_patterns\<close> gave them.
\<close>

definition get_recommendations :: "agent_state \<Rightarrow> string \<Rightarrow> exn + recommendation list" where
  "get_recommendations st sr =
     (case get_patterns (db st) sr of
        Inl e \<Rightarrow> Inl e
      | Inr patterns \<Rightarrow>
          (let model_data = (case subreddit_models st sr of None \<Rightarrow> [] | Some m \<Rightarrow> m)
           in if patterns \<noteq> [] \<and> model_data \<noteq> []
              then recommend_all (take 5 (order_desc confidence patterns)) model_data
              else Inr []))"

section \<open>llm.py\<close>

datatype json =
    JObject "(string \<times> json) list" | JArray "json list" | JString string
  | JNumber real | JBool bool | JNull

text \<open>\<open>s.find(c)\<close> and \<open>s.rfind(c)\<close> for a character, and the slice \<open>s[i:j]\<close>.\<close>

definition py_find :: "string \<Rightarrow> char \<Rightarrow> int" where
  "py_find s c = (if c \<in> set s then int (length (takeWhile (\<lambda>x. x \<noteq> c) s)) else - 1)"

definition py_rfind :: "string \<Rightarrow> char \<Rightarrow> int" where
  "py_rfind s c =
     (if c \<in> set s
      then int (length s) - 1 - int (length (takeWhile (\<lambda>x. x \<noteq> c) (rev s)))
      else - 1)"

definition slice_index :: "string \<Rightarrow> int \<Rightarrow> nat" where
  "slice_index s i =
     (if i < 0 then nat (max 0 (i + int (length s))) else min (nat i) (length s))"

definition py_slice :: "string \<Rightarrow> int \<Rightarrow> int \<Rightarrow> string" where
  "py_slice s i j = drop (slice_index s i) (take (slice_index s j) s)"

text \<open>
  \<open>safe_parse_json\<close>, over the parser \<open>json.loads\<close> of the standard library. The first
  handler takes \<open>JSONDecodeError\<close> only, the second \<open>JSONDecodeError\<close> and \<open>ValueError\<close>;
  any other exception leaves the function.
\<close>

definition safe_parse_json ::
  "(string \<Rightarrow> exn + json) \<Rightarrow> string \<Rightarrow> (exn + json) \<times> log_record list" where
  "safe_parse_json loads json_str =
     (case loads json_str of
        Inr v \<Rightarrow> (Inr v, [])
      | Inl e \<Rightarrow>
          if fst e \<noteq> JSONDecodeError then (Inl e, [])
          else
            (let start_idx = py_find json_str CHR ''{'';
                 end_idx = py_rfind json_str CHR ''}'' + 1;
                 failed = (Inr (JObject []),
                           [(ERROR, ''Failed to parse LLM response: '' @ json_str)])
             in if start_idx \<noteq> - 1 \<and> end_idx \<noteq> 0
                then (case loads (py_slice json_str start_idx end_idx) of
                        Inr v \<Rightarrow> (Inr v, [])
                      | Inl e' \<Rightarrow>
                          if fst e' = JSONDecodeError \<or> fst e' = ValueError then failed
                          else (Inl e', []))
                else failed))"

section \<open>Reading the model\<close>

text \<open>Reading one signal of a subreddit's model: \<open>subreddit_models[sr].get(key)\<close>.\<close>

definition model_get :: "agent_state \<Rightarrow> string \<Rightarrow> string \<Rightarrow> pyval option" where
  "model_get st sr key =
     (case subreddit_models st sr of None \<Rightarrow> None | Some m \<Rightarrow> map_of m key)"

section \<open>Example inputs\<close>

text \<open>
  A submission of subreddit \<open>x\<close> with a given identifier, score, number of comments,
  creation time and stickied flag; a runtime whose clock reads 7200 in the zone UTC; a call
  of \<open>store_submission\<close> for such a submission; and the agent's state on a fresh database.
\<close>

definition example_post :: "string \<Rightarrow> int \<Rightarrow> nat \<Rightarrow> real \<Rightarrow> bool \<Rightarrow> submission" where
  "example_post i sc n t sticky =
     \<lparr>sub_id = i, sub_title = ''A title'', sub_selftext = ''Some text'',
      sub_author = ''alice'', sub_subreddit = ''x'', sub_created_utc = Some t,
      sub_score = Some sc, sub_comments = CommentList n, sub_stickied = sticky\<rparr>"

definition example_runtime :: runtime where
  "example_runtime =
     \<lparr>now_ts = 7200, utc_offset = (\<lambda>t. 0), float_of_str = (\<lambda>s. None)\<rparr>"

text \<open>The same instant on a host eight hours west of UTC.\<close>

definition pacific_runtime :: runtime where
  "pacific_runtime =
     \<lparr>now_ts = 7200, utc_offset = (\<lambda>t. - 28800), float_of_str = (\<lambda>s. None)\<rparr>"

definition example_call :: "string \<Rightarrow> store_call" where
  "example_call i =
     \<lparr>call_now = 7200, call_submission = example_post i 50 10 3600 False,
      call_analysis = analyze_submission (example_post i 50 10 3600 False),
      call_utility = 0.5\<rparr>"

definition fresh_state :: agent_state where
  "fresh_state = \<lparr>db = setup_database, subreddit_models = Map.empty, logs = []\<rparr>"

text \<open>A configuration whose engagement weight is 0.41 instead of 0.4.\<close>

definition raised_config :: config where
  "raised_config =
     \<lparr>learning_rate = 0.1,
      utility_weights =
        \<lparr>w_engagement = 0.41, w_sentiment = 0.2, w_relevance = 0.2, w_novelty = 0.2\<rparr>\<rparr>"

text \<open>A public subreddit whose listing of new submissions is \<open>l\<close>, whatever the limit.\<close>

definition example_reddit :: "submission listing \<Rightarrow> string \<Rightarrow> subreddit_handle" where
  "example_reddit l subreddit_name =
     \<lparr>subreddit_type = Inr ''public'', new_listing = (\<lambda>limit. l)\<rparr>"

text \<open>
  A subreddit whose type is \<open>private\<close>, one whose access raises \<open>e\<close>, a state whose
  database cannot be opened, and a submission without \<open>created_utc\<close>.
\<close>

definition private_reddit :: "string \<Rightarrow> subreddit_handle" where
  "private_reddit subreddit_name =
     \<lparr>subreddit_type = Inr ''private'', new_listing = (\<lambda>limit. Stop)\<rparr>"

definition failing_reddit :: "exn \<Rightarrow> string \<Rightarrow> subreddit_handle" where
  "failing_reddit e subreddit_name =
     \<lparr>subreddit_type = Inl e, new_listing = (\<lambda>limit. Stop)\<rparr>"

definition broken_state :: agent_state where
  "broken_state =
     \<lparr>db = \<lparr>db_available = False, submissions = [], learned_patterns = [],
             next_pattern_id = 1\<rparr>,
      subreddit_models = Map.empty, logs = []\<rparr>"

definition undated_post :: "string \<Rightarrow> submission" where
  "undated_post i =
     \<lparr>sub_id = i, sub_title = ''A title'', sub_selftext = ''Some text'',
      sub_author = ''alice'', sub_subreddit = ''x'', sub_created_utc = None,
      sub_score = Some 50, sub_comments = CommentList 10, sub_stickied = False\<rparr>"

text \<open>A pattern row, and a state with six patterns of subreddit \<open>x\<close> and a model for it.\<close>

definition example_pattern :: "nat \<Rightarrow> string \<Rightarrow> real \<Rightarrow> pattern_row" where
  "example_pattern i ptype conf =
     \<lparr>pattern_id = i, pattern_subreddit = ''x'', pattern_type = ptype,
      pattern_data = \<lparr>title_length = 7, content_length = 120, post_time = 14,
                       payload_topics = PList [''general'', ''news'']\<rparr>,
      confidence = conf, pattern_utility_score = conf, last_updated = 7200\<rparr>"

definition example_patterns :: "pattern_row list" where
  "example_patterns =
     [example_pattern 1 ''successful_post'' 0.8, example_pattern 2 ''experiment'' 0.9,
      example_pattern 3 ''successful_post'' 0.8, example_pattern 4 ''successful_post'' 0.75,
      example_pattern 5 ''successful_post'' 0.95, example_pattern 6 ''successful_post'' 0.72]"

definition learned_state :: agent_state where
  "learned_state =
     \<lparr>db = \<lparr>db_available = True, submissions = [], learned_patterns = example_patterns,
             next_pattern_id = 7\<rparr>,
      subreddit_models = [''x'' \<mapsto> [(''avg_engagement'', PNum 0.6)]], logs = []\<rparr>"

text \<open>The same database after a restart: the in-memory models are empty.\<close>

definition restarted_state :: agent_state where
  "restarted_state = learned_state\<lparr>subreddit_models := Map.empty\<rparr>"

text \<open>
  A stand-in for \<open>json.loads\<close> that knows one document, the object \<open>{"a": 1}\<close>, and
  raises \<open>JSONDecodeError\<close> on every other text.
\<close>

definition example_object :: string where
  "example_object = ''{'' @ [CHR 0x22] @ ''a'' @ [CHR 0x22] @ '': 1}''"

definition example_loads :: "string \<Rightarrow> exn + json" where
  "example_loads s =
     (if s = example_object then Inr (JObject [(''a'', JNumber 1)])
      else Inl (JSONDecodeError, ''Expecting value''))"

text \<open>
  The same stand-in with the recursion limit of the interpreter: like \<open>json.loads\<close>, it
  raises \<open>RecursionError\<close> on a text that opens more than 1000 nested arrays.
\<close>

definition nesting_loads :: "string \<Rightarrow> exn + json" where
  "nesting_loads s =
     (if 1000 < length (takeWhile (\<lambda>c. c = CHR ''['') s)
      then Inl (RecursionError, ''maximum recursion depth exceeded'')
      else example_loads s)"

section \<open>The submissions table holds an identifier at most once\<close>

lemma store_submission_rows:
  assumes "store_submission d now s a u = Inr d'"
  shows "\<exists>r. submissions d' = submissions d @ [r] \<and> submission_id r = sub_id s
           \<and> sub_id s \<notin> set (map submission_id (submissions d))
           \<and> db_available d' \<and> db_available d"
  using assms
  by (auto simp: store_submission_def split: if_splits option.splits sum.splits)

lemma store_submission_distinct:
  assumes "store_submission d now s a u = Inr d'"
    and "distinct (map submission_id (submissions d))"
  shows "distinct (map submission_id (submissions d'))"
proof -
  from store_submission_rows [OF assms(1)] obtain r where
    "submissions d' = submissions d @ [r]" "submission_id r = sub_id s"
    "sub_id s \<notin> set (map submission_id (submissions d))" by blast
  with assms(2) show ?thesis by simp
qed

lemma store_or_keep_cases:
  "store_or_keep d c = d \<or>
   (\<exists>d'. store_submission d (call_now c) (call_submission c) (call_analysis c)
            (call_utility c) = Inr d' \<and> store_or_keep d c = d')"
  by (simp add: store_or_keep_def split: sum.splits)

lemma store_or_keep_distinct:
  "distinct (map submission_id (submissions d)) \<Longrightarrow>
   distinct (map submission_id (submissions (store_or_keep d c)))"
  using store_or_keep_cases [of d c] store_submission_distinct by metis

lemma store_or_keep_available:
  "db_available (store_or_keep d c) = db_available d"
  using store_or_keep_cases [of d c] store_submission_rows by metis

lemma store_or_keep_ids:
  "set (map submission_id (submissions (store_or_keep d c)))
     \<subseteq> insert (sub_id (call_submission c)) (set (map submission_id (submissions d)))"
proof -
  from store_or_keep_cases [of d c] show ?thesis
  proof
    assume "store_or_keep d c = d"
    then show ?thesis by auto
  next
    assume "\<exists>d'. store_submission d (call_now c) (call_submission c) (call_analysis c)
            (call_utility c) = Inr d' \<and> store_or_keep d c = d'"
    then obtain d' where st: "store_submission d (call_now c) (call_submission c)
        (call_analysis c) (call_utility c) = Inr d'" and eq: "store_or_keep d c = d'"
      by blast
    from store_submission_rows [OF st] obtain r where
      "submissions d' = submissions d @ [r]" "submission_id r = sub_id (call_submission c)"
      by blast
    with eq show ?thesis by auto
  qed
qed

lemma store_all_distinct:
  "distinct (map submission_id (submissions d)) \<Longrightarrow>
   distinct (map submission_id (submissions (store_all d cs)))"
  by (induction cs arbitrary: d) (simp_all add: store_or_keep_distinct)

lemma store_all_available:
  "db_available (store_all d cs) = db_available d"
  by (induction cs arbitrary: d) (simp_all add: store_or_keep_available)

lemma store_all_ids:
  "set (map submission_id (submissions (store_all d cs)))
     \<subseteq> set (map submission_id (submissions d)) \<union> set (map (sub_id \<circ> call_submission) cs)"
proof (induction cs arbitrary: d)
  case Nil
  then show ?case by simp
next
  case (Cons c cs)
  have "set (map submission_id (submissions (store_all (store_or_keep d c) cs)))
      \<subseteq> set (map submission_id (submissions (store_or_keep d c)))
          \<union> set (map (sub_id \<circ> call_submission) cs)"
    by (rule Cons.IH)
  with store_or_keep_ids [of d c] show ?case
    unfolding store_all.simps list.map set_simps comp_apply by blast
qed

lemma distinct_filter_le_one:
  "distinct (map f xs) \<Longrightarrow> length (filter (\<lambda>r. f r = i) xs) \<le> 1"
proof (induction xs)
  case Nil
  then show ?case by simp
next
  case (Cons a xs)
  show ?case
  proof (cases "f a = i")
    case True
    with Cons.prems have "\<forall>x\<in>set xs. f x \<noteq> i" by (metis distinct.simps(2) image_eqI list.simps(9) set_map)
    then have "filter (\<lambda>r. f r = i) xs = []" by (simp add: filter_empty_conv)
    with True show ?thesis by simp
  next
    case False
    with Cons show ?thesis by simp
  qed
qed

text \<open>
  Claim C1. Starting from the empty table and after any sequence of calls of
  \<open>store_submission\<close>, no identifier has two rows; \<open>is_submission_processed\<close> is
  false for an identifier that no call has stored; and a call that stores an identifier
  finds it unprocessed before and processed after, leaves exactly one row for it, and
  makes every later call with that identifier fail and leave the table unchanged.
\<close>

theorem submissions_at_most_once:
  assumes "d = store_all setup_database cs"
  shows "distinct (map submission_id (submissions d))
       \<and> length (filter (\<lambda>r. submission_id r = sid) (submissions d)) \<le> 1
       \<and> (sid \<notin> set (map (sub_id \<circ> call_submission) cs)
            \<longrightarrow> is_submission_processed d sid = Inr False)
       \<and> (\<forall>d'. store_submission d now s a u = Inr d' \<longrightarrow>
             is_submission_processed d (sub_id s) = Inr False
           \<and> is_submission_processed d' (sub_id s) = Inr True
           \<and> length (filter (\<lambda>r. submission_id r = sub_id s) (submissions d')) = 1
           \<and> (\<forall>c. sub_id (call_submission c) = sub_id s \<longrightarrow>
                 isl (store_submission d' (call_now c) (call_submission c)
                        (call_analysis c) (call_utility c))
               \<and> store_or_keep d' c = d'))"
proof -
  have dist: "distinct (map submission_id (submissions d))"
    unfolding assms by (rule store_all_distinct) (simp add: setup_database_def)
  have av: "db_available d"
    unfolding assms by (simp add: store_all_available setup_database_def)
  have cnt: "length (filter (\<lambda>r. submission_id r = sid) (submissions d)) \<le> 1"
    using dist by (rule distinct_filter_le_one)
  have before: "is_submission_processed d sid = Inr False"
    if "sid \<notin> set (map (sub_id \<circ> call_submission) cs)"
  proof -
    have "set (map submission_id (submissions d)) \<subseteq> set (map (sub_id \<circ> call_submission) cs)"
      using store_all_ids [of setup_database cs] unfolding assms
      by (simp add: setup_database_def)
    with that have "sid \<notin> set (map submission_id (submissions d))" by blast
    with av show ?thesis by (simp add: is_submission_processed_def)
  qed
  have after: "is_submission_processed d (sub_id s) = Inr False
           \<and> is_submission_processed d' (sub_id s) = Inr True
           \<and> length (filter (\<lambda>r. submission_id r = sub_id s) (submissions d')) = 1
           \<and> (\<forall>c. sub_id (call_submission c) = sub_id s \<longrightarrow>
                 isl (store_submission d' (call_now c) (call_submission c)
                        (call_analysis c) (call_utility c))
               \<and> store_or_keep d' c = d')"
    if st: "store_submission d now s a u = Inr d'" for d'
  proof -
    from store_submission_rows [OF st] obtain r where
      rows: "submissions d' = submissions d @ [r]" and rid: "submission_id r = sub_id s"
      and fresh: "sub_id s \<notin> set (map submission_id (submissions d))"
      and av': "db_available d'" by blast
    have p0: "is_submission_processed d (sub_id s) = Inr False"
      using fresh av by (simp add: is_submission_processed_def)
    have p1: "is_submission_processed d' (sub_id s) = Inr True"
      using rows rid av' by (simp add: is_submission_processed_def)
    have "filter (\<lambda>r. submission_id r = sub_id s) (submissions d) = []"
      using fresh by (force simp: filter_empty_conv)
    then have p2: "length (filter (\<lambda>r. submission_id r = sub_id s) (submissions d')) = 1"
      using rows rid by simp
    have p3: "isl (store_submission d' (call_now c) (call_submission c)
                        (call_analysis c) (call_utility c))
               \<and> store_or_keep d' c = d'"
      if "sub_id (call_submission c) = sub_id s" for c
    proof -
      have "sub_id (call_submission c) \<in> set (map submission_id (submissions d'))"
        using that rows rid by simp
      then have "isl (store_submission d' (call_now c) (call_submission c)
                        (call_analysis c) (call_utility c))"
        by (simp add: store_submission_def split: option.splits sum.splits)
      then show ?thesis by (auto simp: store_or_keep_def split: sum.splits)
    qed
    from p0 p1 p2 p3 show ?thesis by blast
  qed
  from dist cnt before after show ?thesis by blast
qed

lemma example_store_b:
  "store_submission (store_all setup_database [example_call ''a'']) 7200
     (example_post ''b'' 50 10 3600 False)
     (analyze_submission (example_post ''b'' 50 10 3600 False)) 0.5
   = Inr (store_all setup_database [example_call ''a'', example_call ''b''])"
  by (simp add: store_or_keep_def store_submission_def setup_database_def
        example_call_def example_post_def analyze_submission_def)

theorem submissions_at_most_once_witness:
  "distinct (map submission_id
      (submissions (store_all setup_database [example_call ''a''])))
   \<and> is_submission_processed (store_all setup_database [example_call ''a'']) ''b''
       = Inr False
   \<and> is_submission_processed
         (store_all setup_database [example_call ''a'', example_call ''b'']) ''b''
       = Inr True
   \<and> length (filter (\<lambda>r. submission_id r = ''b'')
         (submissions (store_all setup_database [example_call ''a'', example_call ''b''])))
       = 1
   \<and> store_or_keep (store_all setup_database [example_call ''a'', example_call ''b''])
         (example_call ''b'')
       = store_all setup_database [example_call ''a'', example_call ''b'']"
proof -
  have ids: "''b'' \<notin> set (map (sub_id \<circ> call_submission) [example_call ''a''])"
    "sub_id (example_post ''b'' 50 10 3600 False) = ''b''"
    "sub_id (call_submission (example_call ''b'')) = ''b''"
    by (simp_all add: example_call_def example_post_def)
  from submissions_at_most_once [OF refl, of "[example_call ''a'']" "''b''" 7200
      "example_post ''b'' 50 10 3600 False"
      "analyze_submission (example_post ''b'' 50 10 3600 False)" "0.5"]
    example_store_b ids
  show ?thesis by metis
qed

section \<open>The utility is a dot product\<close>

lemma weighted_term_bounds:
  fixes w x :: real
  assumes "0 \<le> w" "0 \<le> x" "x \<le> 1"
  shows "0 \<le> w * x" "w * x \<le> w"
  using assms by (simp_all add: mult_left_le)

text \<open>
  Claim C2. \<open>calculate_utility\<close> is the dot product of the four weights with the four
  metrics, with no normalisation; when the weights are non-negative and sum to 1 and
  every metric lies in [0,1], the utility lies in [0,1].
\<close>

theorem calculate_utility_dot_product:
  "calculate_utility w m =
     sum_list (map2 (*) [w_engagement w, w_sentiment w, w_relevance w, w_novelty w]
                 [engagement_rate m, sentiment_score m, relevance_score m, novelty_score m])
   \<and> (0 \<le> w_engagement w \<and> 0 \<le> w_sentiment w \<and> 0 \<le> w_relevance w \<and> 0 \<le> w_novelty w
      \<and> w_engagement w + w_sentiment w + w_relevance w + w_novelty w = 1
      \<and> 0 \<le> engagement_rate m \<and> engagement_rate m \<le> 1
      \<and> 0 \<le> sentiment_score m \<and> sentiment_score m \<le> 1
      \<and> 0 \<le> relevance_score m \<and> relevance_score m \<le> 1
      \<and> 0 \<le> novelty_score m \<and> novelty_score m \<le> 1
      \<longrightarrow> 0 \<le> calculate_utility w m \<and> calculate_utility w m \<le> 1)"
proof (intro conjI impI)
  show "calculate_utility w m =
     sum_list (map2 (*) [w_engagement w, w_sentiment w, w_relevance w, w_novelty w]
                 [engagement_rate m, sentiment_score m, relevance_score m, novelty_score m])"
    by (simp add: calculate_utility_def)
next
  assume h: "0 \<le> w_engagement w \<and> 0 \<le> w_sentiment w \<and> 0 \<le> w_relevance w \<and> 0 \<le> w_novelty w
      \<and> w_engagement w + w_sentiment w + w_relevance w + w_novelty w = 1
      \<and> 0 \<le> engagement_rate m \<and> engagement_rate m \<le> 1
      \<and> 0 \<le> sentiment_score m \<and> sentiment_score m \<le> 1
      \<and> 0 \<le> relevance_score m \<and> relevance_score m \<le> 1
      \<and> 0 \<le> novelty_score m \<and> novelty_score m \<le> 1"
  have e: "0 \<le> w_engagement w * engagement_rate m"
      "w_engagement w * engagement_rate m \<le> w_engagement w"
    using h by (simp_all add: weighted_term_bounds)
  have s: "0 \<le> w_sentiment w * sentiment_score m"
      "w_sentiment w * sentiment_score m \<le> w_sentiment w"
    using h by (simp_all add: weighted_term_bounds)
  have r: "0 \<le> w_relevance w * relevance_score m"
      "w_relevance w * relevance_score m \<le> w_relevance w"
    using h by (simp_all add: weighted_term_bounds)
  have n: "0 \<le> w_novelty w * novelty_score m"
      "w_novelty w * novelty_score m \<le> w_novelty w"
    using h by (simp_all add: weighted_term_bounds)
  show "0 \<le> calculate_utility w m"
    unfolding calculate_utility_def using e(1) s(1) r(1) n(1) by linarith
  have "w_engagement w + w_sentiment w + w_relevance w + w_novelty w = 1" using h by simp
  then show "calculate_utility w m \<le> 1"
    unfolding calculate_utility_def using e(2) s(2) r(2) n(2) by linarith
qed

theorem calculate_utility_dot_product_witness:
  "calculate_utility (utility_weights default_config)
     \<lparr>engagement_rate = 0.6, sentiment_score = 0.9, relevance_score = 0.5,
      novelty_score = 0.5\<rparr> = 0.62
   \<and> 0 \<le> calculate_utility (utility_weights default_config)
     \<lparr>engagement_rate = 0.6, sentiment_score = 0.9, relevance_score = 0.5,
      novelty_score = 0.5\<rparr>
   \<and> calculate_utility (utility_weights default_config)
     \<lparr>engagement_rate = 0.6, sentiment_score = 0.9, relevance_score = 0.5,
      novelty_score = 0.5\<rparr> \<le> 1"
  using calculate_utility_dot_product [of "utility_weights default_config"
     "\<lparr>engagement_rate = 0.6, sentiment_score = 0.9, relevance_score = 0.5,
      novelty_score = 0.5\<rparr>"]
  by (simp add: default_config_def)

text \<open>Without normalisation: weights that do not sum to 1 take the utility above 1.\<close>

lemma calculate_utility_not_normalised:
  "calculate_utility \<lparr>w_engagement = 1, w_sentiment = 1, w_relevance = 1, w_novelty = 1\<rparr>
     \<lparr>engagement_rate = 1, sentiment_score = 1, relevance_score = 1, novelty_score = 1\<rparr> = 4"
  by (simp add: calculate_utility_def)

section \<open>The moving-average model\<close>

lemma update_model_new:
  "subreddit_models st sr = None \<Longrightarrow>
   subreddit_models (update_model cfg rt sr obs st) sr = Some obs
   \<and> logs (update_model cfg rt sr obs st) = logs st"
  by (simp add: update_model_def)

lemma update_key_other:
  "k \<noteq> key \<Longrightarrow> map_of (fst (update_key cfg rt key v ml)) k = map_of (fst ml) k"
  by (auto simp: update_key_def update_conv' split: sum.splits)

lemma update_key_same:
  "map_of (fst (update_key cfg rt key v ml)) key =
     Some (if key = ''topics'' then v
           else case py_float (float_of_str rt)
                       (case map_of (fst ml) key of None \<Rightarrow> PNum 0 | Some ov \<Rightarrow> ov) of
                  Inl e \<Rightarrow> v
                | Inr old_value \<Rightarrow>
                    (case py_float (float_of_str rt) v of
                       Inl e \<Rightarrow> v
                     | Inr new_value \<Rightarrow>
                         PNum ((1 - learning_rate cfg) * old_value
                               + learning_rate cfg * new_value)))"
  by (simp add: update_key_def update_conv' split: sum.splits)

lemma update_items_other:
  "k \<notin> fst ` set obs \<Longrightarrow> map_of (fst (update_items cfg rt obs ml)) k = map_of (fst ml) k"
  by (induction obs arbitrary: ml) (auto simp: update_key_other)

lemma update_items_key:
  assumes "distinct (map fst obs)" "(key, v) \<in> set obs"
  shows "map_of (fst (update_items cfg rt obs ml)) key =
          map_of (fst (update_key cfg rt key v ml)) key"
  using assms
proof (induction obs arbitrary: ml)
  case Nil
  then show ?case by simp
next
  case (Cons kv rest)
  show ?case
  proof (cases "kv = (key, v)")
    case True
    with Cons.prems have "key \<notin> fst ` set rest" by auto
    with True show ?thesis by (simp add: update_items_other)
  next
    case False
    with Cons.prems have in_rest: "(key, v) \<in> set rest" and d: "distinct (map fst rest)"
      by auto
    from Cons.prems(1) have "fst kv \<notin> fst ` set rest" by simp
    with in_rest have ne: "fst kv \<noteq> key" by (metis fst_conv image_eqI)
    have "map_of (fst (update_items cfg rt rest (update_key cfg rt (fst kv) (snd kv) ml))) key
        = map_of (fst (update_key cfg rt key v (update_key cfg rt (fst kv) (snd kv) ml))) key"
      using Cons.IH [OF d in_rest] .
    also have "\<dots> = map_of (fst (update_key cfg rt key v ml)) key"
      using ne by (simp add: update_key_same update_key_other)
    finally show ?thesis by simp
  qed
qed


lemma update_model_old:
  assumes "subreddit_models st sr = Some m"
  shows "subreddit_models (update_model cfg rt sr obs st) sr
           = Some (fst (update_items cfg rt obs (m, logs st)))"
  using assms by (simp add: update_model_def Let_def)

text \<open>
  Claim C3, as stated, fails where the old value is not a number: \<open>float(old)\<close> raises,
  the handler stores the observation verbatim, and the old value does not count as 0.
  Old value \<open>None\<close>, observation 1.0, rate 0.1: the claim gives 0.1, the code 1.0.
\<close>

theorem update_model_old_not_numeric:
  "model_get
     (update_model default_config example_runtime ''x'' [(''avg'', PNum 1)]
        (update_model default_config example_runtime ''x'' [(''avg'', PNone)] fresh_state))
     ''x'' ''avg'' = Some (PNum 1)
   \<and> PNum 1 \<noteq> PNum ((1 - learning_rate default_config) * 0
                        + learning_rate default_config * 1)"
  by (simp add: model_get_def update_model_def update_key_def fresh_state_def
        default_config_def example_runtime_def)

text \<open>
  Claim C3, amended. With no prior state the observations are stored verbatim. With a
  prior state, each key of the observations other than \<open>topics\<close> becomes
  \<open>(1 - rate) * old + rate * new\<close> when both \<open>float(old)\<close> (old being 0 when the key is
  absent) and \<open>float(new)\<close> succeed, and becomes the observation itself when either
  raises; \<open>topics\<close> becomes the observation; the other keys keep their values. The
  function always returns a state.
\<close>

theorem update_model_smoothing:
  "(subreddit_models st sr = None \<longrightarrow>
      subreddit_models (update_model cfg rt sr obs st) sr = Some obs)
   \<and> (subreddit_models st sr = Some m \<and> distinct (map fst obs) \<and> (key, v) \<in> set obs \<longrightarrow>
        model_get (update_model cfg rt sr obs st) sr key =
          Some (if key = ''topics'' then v
                else case py_float (float_of_str rt)
                            (case map_of m key of None \<Rightarrow> PNum 0 | Some ov \<Rightarrow> ov) of
                       Inl e \<Rightarrow> v
                     | Inr old_value \<Rightarrow>
                         (case py_float (float_of_str rt) v of
                            Inl e \<Rightarrow> v
                          | Inr new_value \<Rightarrow>
                              PNum ((1 - learning_rate cfg) * old_value
                                    + learning_rate cfg * new_value))))
   \<and> (subreddit_models st sr = Some m \<and> k \<notin> fst ` set obs \<longrightarrow>
        model_get (update_model cfg rt sr obs st) sr k = map_of m k)"
proof (intro conjI impI)
  assume "subreddit_models st sr = None"
  then show "subreddit_models (update_model cfg rt sr obs st) sr = Some obs"
    by (simp add: update_model_new)
next
  assume h: "subreddit_models st sr = Some m \<and> distinct (map fst obs) \<and> (key, v) \<in> set obs"
  then have "model_get (update_model cfg rt sr obs st) sr key
      = map_of (fst (update_items cfg rt obs (m, logs st))) key"
    by (simp add: model_get_def update_model_old)
  also have "\<dots> = map_of (fst (update_key cfg rt key v (m, logs st))) key"
    using h by (simp add: update_items_key)
  finally show "model_get (update_model cfg rt sr obs st) sr key =
          Some (if key = ''topics'' then v
                else case py_float (float_of_str rt)
                            (case map_of m key of None \<Rightarrow> PNum 0 | Some ov \<Rightarrow> ov) of
                       Inl e \<Rightarrow> v
                     | Inr old_value \<Rightarrow>
                         (case py_float (float_of_str rt) v of
                            Inl e \<Rightarrow> v
                          | Inr new_value \<Rightarrow>
                              PNum ((1 - learning_rate cfg) * old_value
                                    + learning_rate cfg * new_value)))"
    by (simp only: update_key_same fst_conv)
next
  assume h: "subreddit_models st sr = Some m \<and> k \<notin> fst ` set obs"
  then show "model_get (update_model cfg rt sr obs st) sr k = map_of m k"
    by (simp add: model_get_def update_model_old update_items_other)
qed

text \<open>
  The specification's case: the first update stores the observation 0.5; the second,
  with rate 0.1 and observation 1.0, gives 0.55. A list under \<open>topics\<close> replaces the old one.
\<close>

theorem update_model_smoothing_witness:
  "subreddit_models
     (update_model default_config example_runtime ''x''
        [(''avg_engagement'', PNum 0.5), (''topics'', PList [''a''])] fresh_state) ''x''
     = Some [(''avg_engagement'', PNum 0.5), (''topics'', PList [''a''])]
   \<and> model_get
       (update_model default_config example_runtime ''x''
          [(''avg_engagement'', PNum 1), (''topics'', PList [''b''])]
          (update_model default_config example_runtime ''x''
             [(''avg_engagement'', PNum 0.5), (''topics'', PList [''a''])] fresh_state))
       ''x'' ''avg_engagement'' = Some (PNum 0.55)
   \<and> model_get
       (update_model default_config example_runtime ''x''
          [(''avg_engagement'', PNum 1), (''topics'', PList [''b''])]
          (update_model default_config example_runtime ''x''
             [(''avg_engagement'', PNum 0.5), (''topics'', PList [''a''])] fresh_state))
       ''x'' ''topics'' = Some (PList [''b''])"
proof -
  let ?obs1 = "[(''avg_engagement'', PNum 0.5), (''topics'', PList [''a''])]"
  let ?obs2 = "[(''avg_engagement'', PNum 1), (''topics'', PList [''b''])]"
  let ?st1 = "update_model default_config example_runtime ''x'' ?obs1 fresh_state"
  have none: "subreddit_models fresh_state ''x'' = None"
    by (simp add: fresh_state_def)
  have first: "subreddit_models ?st1 ''x'' = Some ?obs1"
    using update_model_smoothing [of fresh_state "''x''" default_config example_runtime ?obs1]
      none by simp
  have second: "model_get (update_model default_config example_runtime ''x'' ?obs2 ?st1)
       ''x'' ''avg_engagement'' = Some (PNum 0.55)"
    using update_model_smoothing [where st = ?st1 and sr = "''x''" and cfg = default_config
        and rt = example_runtime and obs = ?obs2 and m = ?obs1
        and key = "''avg_engagement''" and v = "PNum 1"] first
    by (simp add: default_config_def)
  have third: "model_get (update_model default_config example_runtime ''x'' ?obs2 ?st1)
       ''x'' ''topics'' = Some (PList [''b''])"
    using update_model_smoothing [where st = ?st1 and sr = "''x''" and cfg = default_config
        and rt = example_runtime and obs = ?obs2 and m = ?obs1
        and key = "''topics''" and v = "PList [''b'']"] first
    by simp
  from first second third show ?thesis by blast
qed

section \<open>The engagement rate\<close>




lemma engagement_access_raises:
  "count_comments (sub_comments s) = Inl e \<Longrightarrow> fst (calculate_engagement_rate ct s) = 0"
  by (simp add: calculate_engagement_rate_def)



text \<open>
  The reading of \<open>datetime.utcnow().timestamp()\<close> is the time only in the zone UTC. Eight
  hours west of it, a submission of score 200 posted 3600 s ago has the rate 2/9, not 1.
\<close>

lemma engagement_rate_shifted_clock:
  "now_ts pacific_runtime - 3600 = 3600
   \<and> fst (calculate_engagement_rate (utcnow_timestamp pacific_runtime)
          (example_post ''a'' 200 0 3600 False)) = 2 / 9"
  by (simp add: calculate_engagement_rate_def utcnow_timestamp_def pacific_runtime_def
        example_post_def)



section \<open>One submission of the loop\<close>

lemma analyze_lookup:
  "map_of (analyze_submission s) ''sentiment'' = Some (PNum 0.5)"
  "map_of (analyze_submission s) ''topics'' = Some (PList [''general''])"
  "map_of (analyze_submission s) ''engagement_rate'' = None"
  by (simp_all add: analyze_submission_def)

lemma update_model_db: "db (update_model cfg rt sr obs st) = db st"
  by (simp add: update_model_def Let_def split: option.splits)

lemma store_submission_analyzed:
  "store_submission d now s (analyze_submission s) u =
     (if \<not> db_available d then Inl unavailable
      else case sub_created_utc s of
        None \<Rightarrow> Inl (AttributeError, ''created_utc'')
      | Some t \<Rightarrow>
        if sub_id s \<in> set (map submission_id (submissions d))
        then Inl (IntegrityError, ''UNIQUE constraint failed: submissions.submission_id'')
        else Inr (d\<lparr>submissions := submissions d @
               [\<lparr>submission_id = sub_id s, title = sub_title s, content = sub_selftext s,
                 author = sub_author s, subreddit = sub_subreddit s, created_utc = t,
                 processed_at = now, sentiment = SqlReal 0.5, topics = PList [''general''],
                 engagement_score = SqlReal 0, utility_score = u\<rparr>]\<rparr>))"
  by (simp add: store_submission_def analyze_lookup split: option.splits)

lemma learn_analyzed:
  "learn_from_submission rt d s (analyze_submission s) u =
     (case sub_created_utc s of
        None \<Rightarrow> Inl (AttributeError, ''created_utc'')
      | Some t \<Rightarrow>
     (case fromtimestamp_hour (utc_offset rt) t of
        Inl e \<Rightarrow> Inl e
      | Inr h \<Rightarrow>
          if \<not> db_available d then Inl unavailable
          else Inr (d\<lparr>learned_patterns := learned_patterns d @
               [\<lparr>pattern_id = next_pattern_id d, pattern_subreddit = sub_subreddit s,
                 pattern_type = ''successful_post'',
                 pattern_data = \<lparr>title_length = length (sub_title s),
                     content_length = length (sub_selftext s),
                     post_time = h, payload_topics = PList [''general'']\<rparr>,
                 confidence = u,
                 pattern_utility_score = u, last_updated = now_ts rt\<rparr>],
             next_pattern_id := Suc (next_pattern_id d)\<rparr>)))"
  by (simp add: learn_from_submission_def store_pattern_def analyze_lookup
      split: option.splits sum.splits)

lemma process_submission_unavailable:
  "\<not> db_available (db st) \<Longrightarrow> process_submission cfg rt n st s = (st, Inl unavailable)"
  by (simp add: process_submission_def is_submission_processed_def)

lemma process_submission_seen:
  "db_available (db st) \<Longrightarrow> sub_id s \<in> set (map submission_id (submissions (db st))) \<Longrightarrow>
   process_submission cfg rt n st s = (st, Inr None)"
  by (simp add: process_submission_def is_submission_processed_def)

lemma process_submission_rows:
  "\<exists>new. submissions (db (fst (process_submission cfg rt n st s)))
           = submissions (db st) @ new
     \<and> (\<forall>r\<in>set new. engagement_score r = SqlReal 0 \<and> submission_id r = sub_id s)"
  by (auto simp: process_submission_def is_submission_processed_def Let_def analyze_lookup
        store_submission_analyzed learn_analyzed update_model_db
      split: if_splits option.splits sum.splits bool.splits)

lemma process_submission_patterns_only_if:
  "learned_patterns (db (fst (process_submission cfg rt n st s))) = learned_patterns (db st)
   \<or> (0.7 < calculate_utility (utility_weights cfg) (submission_metrics rt s 0.5)
       \<and> (\<exists>t h. sub_created_utc s = Some t \<and> fromtimestamp_hour (utc_offset rt) t = Inr h
            \<and> learned_patterns (db (fst (process_submission cfg rt n st s)))
                = learned_patterns (db st) @
                   [\<lparr>pattern_id = next_pattern_id (db st),
                     pattern_subreddit = sub_subreddit s,
                     pattern_type = ''successful_post'',
                     pattern_data = \<lparr>title_length = length (sub_title s),
                        content_length = length (sub_selftext s),
                        post_time = h, payload_topics = PList [''general'']\<rparr>,
                     confidence = calculate_utility (utility_weights cfg)
                                    (submission_metrics rt s 0.5),
                     pattern_utility_score = calculate_utility (utility_weights cfg)
                                    (submission_metrics rt s 0.5),
                     last_updated = now_ts rt\<rparr>]))"
  by (auto simp: process_submission_def is_submission_processed_def Let_def analyze_lookup
        store_submission_analyzed learn_analyzed update_model_db
      split: if_splits option.splits sum.splits bool.splits)

lemma process_submission_fresh:
  assumes "db_available (db st)"
    and "sub_id s \<notin> set (map submission_id (submissions (db st)))"
    and "sub_created_utc s = Some t"
    and "fromtimestamp_hour (utc_offset rt) t = Inr h"
  shows "learned_patterns (db (fst (process_submission cfg rt n st s))) =
      learned_patterns (db st) @
        (if 0.7 < calculate_utility (utility_weights cfg) (submission_metrics rt s 0.5)
         then [\<lparr>pattern_id = next_pattern_id (db st),
                 pattern_subreddit = sub_subreddit s,
                 pattern_type = ''successful_post'',
                 pattern_data = \<lparr>title_length = length (sub_title s),
                    content_length = length (sub_selftext s),
                    post_time = h, payload_topics = PList [''general'']\<rparr>,
                 confidence = calculate_utility (utility_weights cfg)
                                (submission_metrics rt s 0.5),
                 pattern_utility_score = calculate_utility (utility_weights cfg)
                                (submission_metrics rt s 0.5),
                 last_updated = now_ts rt\<rparr>]
         else [])
    \<and> snd (process_submission cfg rt n st s) =
        Inr (Some \<lparr>entry_id = sub_id s, entry_title = sub_title s,
                   entry_utility_score = calculate_utility (utility_weights cfg)
                                (submission_metrics rt s 0.5),
                   entry_metrics = submission_metrics rt s 0.5\<rparr>)"
  using assms
  by (auto simp: process_submission_def is_submission_processed_def Let_def analyze_lookup
        store_submission_analyzed learn_analyzed update_model_db
      split: if_splits option.splits sum.splits bool.splits)

lemma fromtimestamp_hour_in_range:
  assumes "- 62135596800 \<le> \<lfloor>t\<rfloor> + off t" "\<lfloor>t\<rfloor> + off t < 253402300800"
  shows "fromtimestamp_hour off t = Inr (nat ((\<lfloor>t\<rfloor> + off t) div 3600 mod 24))"
  using assms by (simp add: fromtimestamp_hour_def Let_def)

lemma process_submission_fresh_db:
  assumes "db_available (db st)"
    and "sub_id s \<notin> set (map submission_id (submissions (db st)))"
    and "sub_created_utc s = Some t"
    and "fromtimestamp_hour (utc_offset rt) t = Inr h"
  shows "db_available (db (fst (process_submission cfg rt n st s)))
    \<and> map submission_id (submissions (db (fst (process_submission cfg rt n st s))))
        = map submission_id (submissions (db st)) @ [sub_id s]"
  using assms
  by (auto simp: process_submission_def is_submission_processed_def Let_def analyze_lookup
        store_submission_analyzed learn_analyzed update_model_db
      split: if_splits option.splits sum.splits bool.splits)

section \<open>The loop over the listing\<close>

lemma log_error_db: "db (log_error msg st) = db st"
  by (simp add: log_error_def)

lemma process_listing_rows:
  "\<exists>new. submissions (db (fst (process_listing cfg rt n l st acc)))
           = submissions (db st) @ new
     \<and> (\<forall>r\<in>set new. engagement_score r = SqlReal 0)"
proof (induction l arbitrary: st acc)
  case Stop
  then show ?case by simp
next
  case (Raises e)
  then show ?case by simp
next
  case (Yield s rest)
  obtain st' res where ps: "process_submission cfg rt n st s = (st', res)"
    by (cases "process_submission cfg rt n st s")
  from process_submission_rows [of cfg rt n st s] ps obtain new1 where
    n1: "submissions (db st') = submissions (db st) @ new1"
      "\<forall>r\<in>set new1. engagement_score r = SqlReal 0"
    by auto
  define st'' where "st'' = (case res of
       Inl e \<Rightarrow> log_error (''Error processing submission '' @ sub_id s @ '': '' @ snd e) st'
     | Inr x \<Rightarrow> st')"
  define acc' where "acc' = (case res of Inr (Some en) \<Rightarrow> acc @ [en] | _ \<Rightarrow> acc)"
  have step: "process_listing cfg rt n (Yield s rest) st acc
      = process_listing cfg rt n rest st'' acc'"
    using ps by (simp add: st''_def acc'_def split: sum.splits option.splits)
  have dbeq: "db st'' = db st'"
    by (simp add: st''_def log_error_db split: sum.splits)
  from Yield.IH [of st'' acc'] obtain new2 where
    n2: "submissions (db (fst (process_listing cfg rt n rest st'' acc')))
           = submissions (db st'') @ new2"
      "\<forall>r\<in>set new2. engagement_score r = SqlReal 0"
    by blast
  have "submissions (db (fst (process_listing cfg rt n (Yield s rest) st acc)))
      = submissions (db st) @ (new1 @ new2)"
    using step n1(1) n2(1) dbeq by simp
  moreover have "\<forall>r\<in>set (new1 @ new2). engagement_score r = SqlReal 0"
    using n1(2) n2(2) by auto
  ultimately show ?case by blast
qed

lemma process_subreddit_db:
  "db (fst (process_subreddit cfg rt reddit n limit st))
     = db (fst (process_subreddit_body cfg rt reddit n limit st))"
  by (simp add: process_subreddit_def log_error_db split: prod.splits sum.splits)

lemma process_subreddit_body_cases:
  "db (fst (process_subreddit_body cfg rt reddit n limit st)) = db st
   \<or> process_subreddit_body cfg rt reddit n limit st
       = process_listing cfg rt n (new_listing (reddit n) limit) st []"
  by (simp add: process_subreddit_body_def log_error_db split: sum.splits)

lemma process_subreddit_rows:
  "\<exists>new. submissions (db (fst (process_subreddit cfg rt reddit n limit st)))
           = submissions (db st) @ new
     \<and> (\<forall>r\<in>set new. engagement_score r = SqlReal 0)"
proof -
  from process_subreddit_body_cases [of cfg rt reddit n limit st] show ?thesis
  proof
    assume "db (fst (process_subreddit_body cfg rt reddit n limit st)) = db st"
    then have "submissions (db (fst (process_subreddit cfg rt reddit n limit st)))
           = submissions (db st) @ []"
      by (simp add: process_subreddit_db)
    then show ?thesis by fastforce
  next
    assume "process_subreddit_body cfg rt reddit n limit st
       = process_listing cfg rt n (new_listing (reddit n) limit) st []"
    then show ?thesis
      using process_listing_rows [of cfg rt n "new_listing (reddit n) limit" st "[]"]
      by (simp add: process_subreddit_db)
  qed
qed

lemma process_listing_step:
  "\<exists>st'' acc'. process_listing cfg rt n (Yield s rest) st acc
        = process_listing cfg rt n rest st'' acc'
     \<and> db st'' = db (fst (process_submission cfg rt n st s))"
proof -
  obtain st' res where ps: "process_submission cfg rt n st s = (st', res)"
    by (cases "process_submission cfg rt n st s")
  define st'' where "st'' = (case res of
       Inl e \<Rightarrow> log_error (''Error processing submission '' @ sub_id s @ '': '' @ snd e) st'
     | Inr x \<Rightarrow> st')"
  define acc' where "acc' = (case res of Inr (Some en) \<Rightarrow> acc @ [en] | _ \<Rightarrow> acc)"
  have "process_listing cfg rt n (Yield s rest) st acc
      = process_listing cfg rt n rest st'' acc'"
    using ps by (simp add: st''_def acc'_def split: sum.splits option.splits)
  moreover have "db st'' = db (fst (process_submission cfg rt n st s))"
    using ps by (simp add: st''_def log_error_db split: sum.splits)
  ultimately show ?thesis by blast
qed

lemma process_listing_confident:
  "\<exists>new. learned_patterns (db (fst (process_listing cfg rt n l st acc)))
           = learned_patterns (db st) @ new
     \<and> (\<forall>p\<in>set new. 0.7 < confidence p)"
proof (induction l arbitrary: st acc)
  case Stop
  then show ?case by simp
next
  case (Raises e)
  then show ?case by simp
next
  case (Yield s rest)
  from process_listing_step [of cfg rt n s rest st acc] obtain st'' acc' where
    step: "process_listing cfg rt n (Yield s rest) st acc
             = process_listing cfg rt n rest st'' acc'"
    and dbeq: "db st'' = db (fst (process_submission cfg rt n st s))" by blast
  from process_submission_patterns_only_if [of cfg rt n st s] obtain new1 where
    n1: "learned_patterns (db st'') = learned_patterns (db st) @ new1"
      "\<forall>p\<in>set new1. 0.7 < confidence p"
    unfolding dbeq [symmetric]
  proof (elim disjE conjE exE)
    assume "learned_patterns (db st'') = learned_patterns (db st)"
    then have "learned_patterns (db st'') = learned_patterns (db st) @ []" by simp
    moreover assume "\<And>new1. learned_patterns (db st'') = learned_patterns (db st) @ new1 \<Longrightarrow>
       \<forall>p\<in>set new1. 0.7 < confidence p \<Longrightarrow> thesis"
    ultimately show thesis by force
  next
    fix t h
    assume u: "0.7 < calculate_utility (utility_weights cfg) (submission_metrics rt s 0.5)"
      and eq: "learned_patterns (db st'') = learned_patterns (db st) @
                   [\<lparr>pattern_id = next_pattern_id (db st),
                     pattern_subreddit = sub_subreddit s,
                     pattern_type = ''successful_post'',
                     pattern_data = \<lparr>title_length = length (sub_title s),
                        content_length = length (sub_selftext s),
                        post_time = h, payload_topics = PList [''general'']\<rparr>,
                     confidence = calculate_utility (utility_weights cfg)
                                    (submission_metrics rt s 0.5),
                     pattern_utility_score = calculate_utility (utility_weights cfg)
                                    (submission_metrics rt s 0.5),
                     last_updated = now_ts rt\<rparr>]"
      and k: "\<And>new1. learned_patterns (db st'') = learned_patterns (db st) @ new1 \<Longrightarrow>
       \<forall>p\<in>set new1. 0.7 < confidence p \<Longrightarrow> thesis"
    show thesis by (rule k [OF eq]) (use u in simp)
  qed
  from Yield.IH [of st'' acc'] obtain new2 where
    n2: "learned_patterns (db (fst (process_listing cfg rt n rest st'' acc')))
           = learned_patterns (db st'') @ new2"
      "\<forall>p\<in>set new2. 0.7 < confidence p"
    by blast
  have "learned_patterns (db (fst (process_listing cfg rt n (Yield s rest) st acc)))
      = learned_patterns (db st) @ (new1 @ new2)"
    using step n1(1) n2(1) by simp
  moreover have "\<forall>p\<in>set (new1 @ new2). 0.7 < confidence p"
    using n1(2) n2(2) by auto
  ultimately show ?case by blast
qed

lemma process_listing_patterns:
  assumes "db_available (db st)"
    and "distinct (map sub_id (listing_items l))"
    and "\<forall>s\<in>set (listing_items l).
           sub_id s \<notin> set (map submission_id (submissions (db st)))
         \<and> (\<exists>t. sub_created_utc s = Some t
                \<and> - 62135596800 \<le> \<lfloor>t\<rfloor> + utc_offset rt t
                \<and> \<lfloor>t\<rfloor> + utc_offset rt t < 253402300800)"
  shows "\<exists>new. learned_patterns (db (fst (process_listing cfg rt n l st acc)))
           = learned_patterns (db st) @ new
     \<and> map (\<lambda>p. (pattern_subreddit p, pattern_type p, pattern_data p, confidence p)) new
       = map (\<lambda>s. (sub_subreddit s, ''successful_post'',
                    \<lparr>title_length = length (sub_title s),
                      content_length = length (sub_selftext s),
                      post_time = nat ((\<lfloor>the (sub_created_utc s)\<rfloor>
                                    + utc_offset rt (the (sub_created_utc s))) div 3600 mod 24),
                      payload_topics = PList [''general'']\<rparr>,
                    calculate_utility (utility_weights cfg) (submission_metrics rt s 0.5)))
           (filter (\<lambda>s. 0.7 < calculate_utility (utility_weights cfg)
                                 (submission_metrics rt s 0.5))
              (listing_items l))"
  using assms
proof (induction l arbitrary: st acc)
  case Stop
  then show ?case by simp
next
  case (Raises e)
  then show ?case by simp
next
  case (Yield s rest)
  from Yield.prems(3) have fresh: "sub_id s \<notin> set (map submission_id (submissions (db st)))"
    by simp
  from Yield.prems(3) obtain t where
    t: "sub_created_utc s = Some t" "- 62135596800 \<le> \<lfloor>t\<rfloor> + utc_offset rt t"
       "\<lfloor>t\<rfloor> + utc_offset rt t < 253402300800"
    by auto
  note hour = fromtimestamp_hour_in_range [where off = "utc_offset rt" and t = t, OF t(2) t(3)]
  from process_listing_step [of cfg rt n s rest st acc] obtain st'' acc' where
    step: "process_listing cfg rt n (Yield s rest) st acc
             = process_listing cfg rt n rest st'' acc'"
    and dbeq: "db st'' = db (fst (process_submission cfg rt n st s))" by blast
  note one = process_submission_fresh [OF Yield.prems(1) fresh t(1) hour, of cfg n,
      THEN conjunct1, folded dbeq]
  note two = process_submission_fresh_db [OF Yield.prems(1) fresh t(1) hour, of cfg n,
      folded dbeq]
  from two have av: "db_available (db st'')" by (rule conjunct1)
  from two have ids: "map submission_id (submissions (db st''))
        = map submission_id (submissions (db st)) @ [sub_id s]" by (rule conjunct2)
  from Yield.prems(2) have d: "distinct (map sub_id (listing_items rest))"
    and ns: "sub_id s \<notin> sub_id ` set (listing_items rest)" by simp_all
  have rest: "\<forall>s'\<in>set (listing_items rest).
           sub_id s' \<notin> set (map submission_id (submissions (db st'')))
         \<and> (\<exists>t. sub_created_utc s' = Some t
                \<and> - 62135596800 \<le> \<lfloor>t\<rfloor> + utc_offset rt t
                \<and> \<lfloor>t\<rfloor> + utc_offset rt t < 253402300800)"
  proof
    fix s' assume m: "s' \<in> set (listing_items rest)"
    with Yield.prems(3) have
      a: "sub_id s' \<notin> set (map submission_id (submissions (db st)))"
      and b: "\<exists>t. sub_created_utc s' = Some t
                \<and> - 62135596800 \<le> \<lfloor>t\<rfloor> + utc_offset rt t
                \<and> \<lfloor>t\<rfloor> + utc_offset rt t < 253402300800"
      by simp_all
    from m ns have "sub_id s' \<noteq> sub_id s" by (metis image_eqI)
    with a have "sub_id s' \<notin> set (map submission_id (submissions (db st'')))"
      unfolding ids by simp
    with b show "sub_id s' \<notin> set (map submission_id (submissions (db st'')))
         \<and> (\<exists>t. sub_created_utc s' = Some t
                \<and> - 62135596800 \<le> \<lfloor>t\<rfloor> + utc_offset rt t
                \<and> \<lfloor>t\<rfloor> + utc_offset rt t < 253402300800)" by simp
  qed
  from Yield.IH [OF av d rest, of acc'] obtain new2 where
    n2: "learned_patterns (db (fst (process_listing cfg rt n rest st'' acc')))
           = learned_patterns (db st'') @ new2"
    and v2: "map (\<lambda>p. (pattern_subreddit p, pattern_type p, pattern_data p, confidence p)) new2
       = map (\<lambda>s. (sub_subreddit s, ''successful_post'',
                    \<lparr>title_length = length (sub_title s),
                      content_length = length (sub_selftext s),
                      post_time = nat ((\<lfloor>the (sub_created_utc s)\<rfloor>
                                    + utc_offset rt (the (sub_created_utc s))) div 3600 mod 24),
                      payload_topics = PList [''general'']\<rparr>,
                    calculate_utility (utility_weights cfg) (submission_metrics rt s 0.5)))
           (filter (\<lambda>s. 0.7 < calculate_utility (utility_weights cfg)
                                 (submission_metrics rt s 0.5))
              (listing_items rest))"
    by blast
  define new1 where "new1 =
        (if 0.7 < calculate_utility (utility_weights cfg) (submission_metrics rt s 0.5)
         then [\<lparr>pattern_id = next_pattern_id (db st),
                 pattern_subreddit = sub_subreddit s,
                 pattern_type = ''successful_post'',
                 pattern_data = \<lparr>title_length = length (sub_title s),
                    content_length = length (sub_selftext s),
                    post_time = nat ((\<lfloor>t\<rfloor> + utc_offset rt t) div 3600 mod 24),
                    payload_topics = PList [''general'']\<rparr>,
                 confidence = calculate_utility (utility_weights cfg)
                                (submission_metrics rt s 0.5),
                 pattern_utility_score = calculate_utility (utility_weights cfg)
                                (submission_metrics rt s 0.5),
                 last_updated = now_ts rt\<rparr>]
         else [])"
  have n1: "learned_patterns (db st'') = learned_patterns (db st) @ new1"
    unfolding new1_def by (rule one)
  have "learned_patterns (db (fst (process_listing cfg rt n (Yield s rest) st acc)))
      = learned_patterns (db st) @ (new1 @ new2)"
    unfolding step n2 n1 by simp
  moreover have "map (\<lambda>p. (pattern_subreddit p, pattern_type p, pattern_data p, confidence p))
        (new1 @ new2)
       = map (\<lambda>s. (sub_subreddit s, ''successful_post'',
                    \<lparr>title_length = length (sub_title s),
                      content_length = length (sub_selftext s),
                      post_time = nat ((\<lfloor>the (sub_created_utc s)\<rfloor>
                                    + utc_offset rt (the (sub_created_utc s))) div 3600 mod 24),
                      payload_topics = PList [''general'']\<rparr>,
                    calculate_utility (utility_weights cfg) (submission_metrics rt s 0.5)))
           (filter (\<lambda>s. 0.7 < calculate_utility (utility_weights cfg)
                                 (submission_metrics rt s 0.5))
              (listing_items (Yield s rest)))"
    using v2 by (simp add: new1_def t(1))
  ultimately show ?case by blast
qed

lemma process_subreddit_public:
  assumes "subreddit_type (reddit n) = Inr ty" and "ty \<noteq> ''private''"
  shows "db (fst (process_subreddit cfg rt reddit n limit st))
       = db (fst (process_listing cfg rt n (new_listing (reddit n) limit) st []))"
  using assms by (simp add: process_subreddit_db process_subreddit_body_def)

lemma process_subreddit_confident:
  "\<exists>new. learned_patterns (db (fst (process_subreddit cfg rt reddit n limit st)))
           = learned_patterns (db st) @ new
     \<and> (\<forall>p\<in>set new. 0.7 < confidence p)"
proof -
  from process_subreddit_body_cases [of cfg rt reddit n limit st] show ?thesis
  proof
    assume "db (fst (process_subreddit_body cfg rt reddit n limit st)) = db st"
    then have "learned_patterns (db (fst (process_subreddit cfg rt reddit n limit st)))
           = learned_patterns (db st) @ []"
      by (simp add: process_subreddit_db)
    then show ?thesis by fastforce
  next
    assume "process_subreddit_body cfg rt reddit n limit st
       = process_listing cfg rt n (new_listing (reddit n) limit) st []"
    then show ?thesis
      using process_listing_confident [of cfg rt n "new_listing (reddit n) limit" st "[]"]
      by (simp add: process_subreddit_db)
  qed
qed

section \<open>Patterns are learned above the threshold\<close>

lemma example_utilities:
  "calculate_utility (utility_weights default_config)
     (submission_metrics example_runtime (example_post ''a'' 200 0 3600 False) 0.5) = 0.7"
  "calculate_utility (utility_weights default_config)
     (submission_metrics example_runtime (example_post ''b'' 50 10 3600 False) 0.5) = 0.54"
  "calculate_utility (utility_weights raised_config)
     (submission_metrics example_runtime (example_post ''a'' 200 0 3600 False) 0.5) = 0.71"
  "calculate_utility (utility_weights raised_config)
     (submission_metrics example_runtime (example_post ''b'' 50 10 3600 False) 0.5) = 0.546"
  "calculate_utility (utility_weights raised_config)
     (submission_metrics pacific_runtime (example_post ''c'' 2000 0 3600 False) 0.5) = 0.71"
  by (simp_all add: calculate_utility_def submission_metrics_def default_config_def
        raised_config_def example_runtime_def pacific_runtime_def example_post_def
        calculate_engagement_rate_def utcnow_timestamp_def
        calculate_relevance_def calculate_novelty_def)

lemma example_above:
  "(0.7 < calculate_utility (utility_weights default_config)
     (submission_metrics example_runtime (example_post ''a'' 200 0 3600 False) 0.5)) = False"
  "(0.7 < calculate_utility (utility_weights default_config)
     (submission_metrics example_runtime (example_post ''b'' 50 10 3600 False) 0.5)) = False"
  "(0.7 < calculate_utility (utility_weights raised_config)
     (submission_metrics example_runtime (example_post ''a'' 200 0 3600 False) 0.5)) = True"
  "(0.7 < calculate_utility (utility_weights raised_config)
     (submission_metrics example_runtime (example_post ''b'' 50 10 3600 False) 0.5)) = False"
  "(0.7 < calculate_utility (utility_weights raised_config)
     (submission_metrics pacific_runtime (example_post ''c'' 2000 0 3600 False) 0.5)) = True"
  unfolding example_utilities by simp_all

lemma example_listing_ready:
  "subreddit_type (example_reddit l ''x'') = Inr ''public'' \<and> ''public'' \<noteq> ''private''
   \<and> db_available (db fresh_state)"
  "distinct (map sub_id (listing_items (new_listing
      (example_reddit (Yield (example_post ''a'' 200 0 3600 False)
         (Yield (example_post ''b'' 50 10 3600 False) Stop)) ''x'') 10)))"
  "\<forall>s\<in>set (listing_items (new_listing
      (example_reddit (Yield (example_post ''a'' 200 0 3600 False)
         (Yield (example_post ''b'' 50 10 3600 False) Stop)) ''x'') 10)).
       sub_id s \<notin> set (map submission_id (submissions (db fresh_state)))
     \<and> (\<exists>t. sub_created_utc s = Some t
            \<and> - 62135596800 \<le> \<lfloor>t\<rfloor> + utc_offset example_runtime t
            \<and> \<lfloor>t\<rfloor> + utc_offset example_runtime t < 253402300800)"
  "distinct (map sub_id (listing_items (new_listing
      (example_reddit (Yield (example_post ''c'' 2000 0 3600 False) Stop) ''x'') 10)))"
  "\<forall>s\<in>set (listing_items (new_listing
      (example_reddit (Yield (example_post ''c'' 2000 0 3600 False) Stop) ''x'') 10)).
       sub_id s \<notin> set (map submission_id (submissions (db fresh_state)))
     \<and> (\<exists>t. sub_created_utc s = Some t
            \<and> - 62135596800 \<le> \<lfloor>t\<rfloor> + utc_offset pacific_runtime t
            \<and> \<lfloor>t\<rfloor> + utc_offset pacific_runtime t < 253402300800)"
  by (simp_all add: example_reddit_def fresh_state_def setup_database_def example_post_def
        example_runtime_def pacific_runtime_def)

lemma example_post_fields:
  "sub_subreddit (example_post i sc k t b) = ''x''"
  "length (sub_title (example_post i sc k t b)) = 7"
  "length (sub_selftext (example_post i sc k t b)) = 9"
  "sub_created_utc (example_post i sc k t b) = Some t"
  "utc_offset example_runtime t = 0"
  "utc_offset pacific_runtime t = - 28800"
  "learned_patterns (db fresh_state) = []"
  by (simp_all add: example_post_def example_runtime_def pacific_runtime_def fresh_state_def
        setup_database_def)

text \<open>
  Claim C5. During \<open>process_subreddit\<close> a pattern is stored for a submission if and only
  if the utility score computed for it exceeds 0.7. Every pattern a run of
  \<open>process_subreddit\<close> adds has a confidence above 0.7. And when the subreddit can be
  read and is not private, the database can be opened, the listed submissions are new and
  distinct and each has a creation time that is a date of the local calendar, the run
  adds exactly one pattern for each listed submission whose score exceeds 0.7, in the
  order of the listing: its confidence is that score and its payload holds the title
  length, the content length, the hour of the local time of posting and the topics.
\<close>

theorem pattern_iff_utility_above_threshold:
  "(\<exists>new. learned_patterns (db (fst (process_subreddit cfg rt reddit n limit st)))
            = learned_patterns (db st) @ new
      \<and> (\<forall>p\<in>set new. 0.7 < confidence p))
   \<and> (subreddit_type (reddit n) = Inr ty \<and> ty \<noteq> ''private''
       \<and> db_available (db st)
       \<and> distinct (map sub_id (listing_items (new_listing (reddit n) limit)))
       \<and> (\<forall>s\<in>set (listing_items (new_listing (reddit n) limit)).
             sub_id s \<notin> set (map submission_id (submissions (db st)))
           \<and> (\<exists>t. sub_created_utc s = Some t
                  \<and> - 62135596800 \<le> \<lfloor>t\<rfloor> + utc_offset rt t
                  \<and> \<lfloor>t\<rfloor> + utc_offset rt t < 253402300800))
      \<longrightarrow> (\<exists>new. learned_patterns (db (fst (process_subreddit cfg rt reddit n limit st)))
                  = learned_patterns (db st) @ new
            \<and> map (\<lambda>p. (pattern_subreddit p, pattern_type p, pattern_data p, confidence p))
                new
              = map (\<lambda>s. (sub_subreddit s, ''successful_post'',
                     \<lparr>title_length = length (sub_title s),
                       content_length = length (sub_selftext s),
                       post_time = nat ((\<lfloor>the (sub_created_utc s)\<rfloor>
                                    + utc_offset rt (the (sub_created_utc s))) div 3600 mod 24),
                       payload_topics = PList [''general'']\<rparr>,
                     calculate_utility (utility_weights cfg) (submission_metrics rt s 0.5)))
                  (filter (\<lambda>s. 0.7 < calculate_utility (utility_weights cfg)
                                        (submission_metrics rt s 0.5))
                     (listing_items (new_listing (reddit n) limit)))))"
proof (intro conjI impI)
  show "\<exists>new. learned_patterns (db (fst (process_subreddit cfg rt reddit n limit st)))
            = learned_patterns (db st) @ new
      \<and> (\<forall>p\<in>set new. 0.7 < confidence p)"
    by (rule process_subreddit_confident)
next
  assume pre: "subreddit_type (reddit n) = Inr ty \<and> ty \<noteq> ''private''
       \<and> db_available (db st)
       \<and> distinct (map sub_id (listing_items (new_listing (reddit n) limit)))
       \<and> (\<forall>s\<in>set (listing_items (new_listing (reddit n) limit)).
             sub_id s \<notin> set (map submission_id (submissions (db st)))
           \<and> (\<exists>t. sub_created_utc s = Some t
                  \<and> - 62135596800 \<le> \<lfloor>t\<rfloor> + utc_offset rt t
                  \<and> \<lfloor>t\<rfloor> + utc_offset rt t < 253402300800))"
  from pre have p1: "subreddit_type (reddit n) = Inr ty" by (rule conjunct1)
  from pre have p2: "ty \<noteq> ''private''" by (elim conjE)
  from pre have p3: "db_available (db st)" by (elim conjE)
  from pre have p4: "distinct (map sub_id (listing_items (new_listing (reddit n) limit)))"
    by (elim conjE)
  from pre have p5: "\<forall>s\<in>set (listing_items (new_listing (reddit n) limit)).
             sub_id s \<notin> set (map submission_id (submissions (db st)))
           \<and> (\<exists>t. sub_created_utc s = Some t
                  \<and> - 62135596800 \<le> \<lfloor>t\<rfloor> + utc_offset rt t
                  \<and> \<lfloor>t\<rfloor> + utc_offset rt t < 253402300800)"
    by (elim conjE)
  show "\<exists>new. learned_patterns (db (fst (process_subreddit cfg rt reddit n limit st)))
                  = learned_patterns (db st) @ new
            \<and> map (\<lambda>p. (pattern_subreddit p, pattern_type p, pattern_data p, confidence p))
                new
              = map (\<lambda>s. (sub_subreddit s, ''successful_post'',
                     \<lparr>title_length = length (sub_title s),
                       content_length = length (sub_selftext s),
                       post_time = nat ((\<lfloor>the (sub_created_utc s)\<rfloor>
                                    + utc_offset rt (the (sub_created_utc s))) div 3600 mod 24),
                       payload_topics = PList [''general'']\<rparr>,
                     calculate_utility (utility_weights cfg) (submission_metrics rt s 0.5)))
                  (filter (\<lambda>s. 0.7 < calculate_utility (utility_weights cfg)
                                        (submission_metrics rt s 0.5))
                     (listing_items (new_listing (reddit n) limit)))"
    unfolding process_subreddit_public [where reddit = reddit and n = n, OF p1 p2]
    by (rule process_listing_patterns [OF p3 p4 p5])
qed

text \<open>
  A listing of two new submissions. With the default weights their scores are exactly 0.7
  and 0.54 and the run stores no pattern; with an engagement weight of 0.41 they are 0.71
  and 0.546 and the run stores one pattern, for the first, posted in hour 1. On a host
  eight hours west of UTC a submission created at the same instant is stored with hour 17.
\<close>

theorem pattern_iff_utility_above_threshold_witness:
  "learned_patterns (db (fst (process_subreddit default_config example_runtime
       (example_reddit (Yield (example_post ''a'' 200 0 3600 False)
          (Yield (example_post ''b'' 50 10 3600 False) Stop))) ''x'' 10 fresh_state))) = []
   \<and> map (\<lambda>p. (pattern_subreddit p, pattern_type p, pattern_data p, confidence p))
       (learned_patterns (db (fst (process_subreddit raised_config example_runtime
          (example_reddit (Yield (example_post ''a'' 200 0 3600 False)
             (Yield (example_post ''b'' 50 10 3600 False) Stop))) ''x'' 10 fresh_state))))
     = [(''x'', ''successful_post'',
         \<lparr>title_length = 7, content_length = 9, post_time = 1,
          payload_topics = PList [''general'']\<rparr>, 0.71)]
   \<and> map (\<lambda>p. (pattern_subreddit p, pattern_type p, pattern_data p, confidence p))
       (learned_patterns (db (fst (process_subreddit raised_config pacific_runtime
          (example_reddit (Yield (example_post ''c'' 2000 0 3600 False) Stop))
          ''x'' 10 fresh_state))))
     = [(''x'', ''successful_post'',
         \<lparr>title_length = 7, content_length = 9, post_time = 17,
          payload_topics = PList [''general'']\<rparr>, 0.71)]"
proof -
  note pre1 = conjI [OF example_listing_ready(1)
      conjI [OF example_listing_ready(2) example_listing_ready(3)], unfolded conj_assoc]
  note pre2 = conjI [OF example_listing_ready(1)
      conjI [OF example_listing_ready(4) example_listing_ready(5)], unfolded conj_assoc]
  note items = example_reddit_def subreddit_handle.simps listing_items.simps filter.simps
    example_above if_True if_False list.map
  note t1 = pattern_iff_utility_above_threshold [where cfg = default_config
      and rt = example_runtime and n = "''x''" and st = fresh_state and limit = 10
      and ty = "''public''"
      and reddit = "example_reddit (Yield (example_post ''a'' 200 0 3600 False)
          (Yield (example_post ''b'' 50 10 3600 False) Stop))",
      THEN conjunct2, THEN mp, OF pre1, unfolded items, unfolded example_utilities]
  note t2 = pattern_iff_utility_above_threshold [where cfg = raised_config
      and rt = example_runtime and n = "''x''" and st = fresh_state and limit = 10
      and ty = "''public''"
      and reddit = "example_reddit (Yield (example_post ''a'' 200 0 3600 False)
          (Yield (example_post ''b'' 50 10 3600 False) Stop))",
      THEN conjunct2, THEN mp, OF pre1, unfolded items, unfolded example_utilities]
  note t3 = pattern_iff_utility_above_threshold [where cfg = raised_config
      and rt = pacific_runtime and n = "''x''" and st = fresh_state and limit = 10
      and ty = "''public''"
      and reddit = "example_reddit (Yield (example_post ''c'' 2000 0 3600 False) Stop)",
      THEN conjunct2, THEN mp, OF pre2, unfolded items, unfolded example_utilities]
  from t1 have a: "learned_patterns (db (fst (process_subreddit default_config example_runtime
       (example_reddit (Yield (example_post ''a'' 200 0 3600 False)
          (Yield (example_post ''b'' 50 10 3600 False) Stop))) ''x'' 10 fresh_state))) = []"
    unfolding example_reddit_def by (simp add: example_post_fields)
  from t2 have b: "map (\<lambda>p. (pattern_subreddit p, pattern_type p, pattern_data p, confidence p))
       (learned_patterns (db (fst (process_subreddit raised_config example_runtime
          (example_reddit (Yield (example_post ''a'' 200 0 3600 False)
             (Yield (example_post ''b'' 50 10 3600 False) Stop))) ''x'' 10 fresh_state))))
     = [(''x'', ''successful_post'',
         \<lparr>title_length = 7, content_length = 9, post_time = 1,
          payload_topics = PList [''general'']\<rparr>, 0.71)]"
    unfolding example_reddit_def by (auto simp: example_post_fields)
  from t3 have c: "map (\<lambda>p. (pattern_subreddit p, pattern_type p, pattern_data p, confidence p))
       (learned_patterns (db (fst (process_subreddit raised_config pacific_runtime
          (example_reddit (Yield (example_post ''c'' 2000 0 3600 False) Stop))
          ''x'' 10 fresh_state))))
     = [(''x'', ''successful_post'',
         \<lparr>title_length = 7, content_length = 9, post_time = 17,
          payload_topics = PList [''general'']\<rparr>, 0.71)]"
    unfolding example_reddit_def by (auto simp: example_post_fields)
  from a b c show ?thesis by (intro conjI)
qed

section \<open>A run on one submission\<close>

lemmas run_simps = process_subreddit_def process_subreddit_body_def example_reddit_def
      process_submission_def is_submission_processed_def fresh_state_def setup_database_def
      store_submission_analyzed learn_analyzed analyze_lookup Let_def
      example_post_def example_runtime_def default_config_def calculate_utility_def
      submission_metrics_def calculate_engagement_rate_def calculate_relevance_def
      calculate_novelty_def update_model_def log_error_def utcnow_timestamp_def

lemma example_run:
  "submissions (db (fst (process_subreddit default_config example_runtime
     (example_reddit (Yield (example_post ''a'' 50 10 3600 False) Stop)) ''x'' 10 fresh_state)))
   = [\<lparr>submission_id = ''a'', title = ''A title'', content = ''Some text'',
       author = ''alice'', subreddit = ''x'', created_utc = 3600, processed_at = 7200,
       sentiment = SqlReal 0.5, topics = PList [''general''],
       engagement_score = SqlReal 0, utility_score = 0.54\<rparr>]"
  "snd (process_subreddit default_config example_runtime
     (example_reddit (Yield (example_post ''a'' 50 10 3600 False) Stop)) ''x'' 10 fresh_state)
   = Inr [\<lparr>entry_id = ''a'', entry_title = ''A title'', entry_utility_score = 0.54,
            entry_metrics = \<lparr>engagement_rate = 0.6, sentiment_score = 0.5,
               relevance_score = 0.5, novelty_score = 0.5\<rparr>\<rparr>]"
  "subreddit_models (fst (process_subreddit default_config example_runtime
     (example_reddit (Yield (example_post ''a'' 50 10 3600 False) Stop)) ''x'' 10 fresh_state))
     ''x''
   = Some [(''avg_engagement'', PNum 0.6), (''avg_sentiment'', PNum 0.5),
           (''avg_relevance'', PNum 0.5), (''avg_novelty'', PNum 0.5)]"
  by (simp_all add: run_simps)

section \<open>The stored engagement score\<close>

lemma store_submission_engagement_default:
  assumes "map_of analysis ''engagement_rate'' = None"
    and "store_submission d now s analysis u = Inr d'"
  shows "engagement_score (last (submissions d')) = SqlReal 0"
  using assms
  by (auto simp: store_submission_def split: if_splits option.splits sum.splits)

text \<open>
  Claim C10. Every row that \<open>process_subreddit\<close> adds to the table \<open>submissions\<close> has
  the engagement score 0.0: \<open>analyze_submission\<close> returns the keys \<open>sentiment\<close> and
  \<open>topics\<close> only, and \<open>store_submission\<close> writes 0.0 when the analysis has no key
  \<open>engagement_rate\<close>.
\<close>

theorem persisted_engagement_score_zero:
  "(\<exists>new. submissions (db (fst (process_subreddit cfg rt reddit n limit st)))
            = submissions (db st) @ new
      \<and> (\<forall>r\<in>set new. engagement_score r = SqlReal 0))
   \<and> map fst (analyze_submission s) = [''sentiment'', ''topics'']
   \<and> (map_of analysis ''engagement_rate'' = None
        \<and> store_submission d now s analysis u = Inr d'
      \<longrightarrow> engagement_score (last (submissions d')) = SqlReal 0)"
proof (intro conjI impI)
  show "\<exists>new. submissions (db (fst (process_subreddit cfg rt reddit n limit st)))
            = submissions (db st) @ new
      \<and> (\<forall>r\<in>set new. engagement_score r = SqlReal 0)"
    by (rule process_subreddit_rows)
  show "map fst (analyze_submission s) = [''sentiment'', ''topics'']"
    by (simp add: analyze_submission_def)
next
  assume "map_of analysis ''engagement_rate'' = None
        \<and> store_submission d now s analysis u = Inr d'"
  then show "engagement_score (last (submissions d')) = SqlReal 0"
    using store_submission_engagement_default by blast
qed

text \<open>
  A submission whose computed engagement rate is 0.6 is stored with the engagement
  score 0.0.
\<close>

theorem persisted_engagement_score_zero_witness:
  "list_all (\<lambda>r. engagement_score r = SqlReal 0)
     (submissions (db (fst (process_subreddit default_config example_runtime
        (example_reddit (Yield (example_post ''a'' 50 10 3600 False) Stop)) ''x'' 10
        fresh_state))))
   \<and> length (submissions (db (fst (process_subreddit default_config example_runtime
        (example_reddit (Yield (example_post ''a'' 50 10 3600 False) Stop)) ''x'' 10
        fresh_state)))) = 1
   \<and> fst (calculate_engagement_rate (utcnow_timestamp example_runtime)
            (example_post ''a'' 50 10 3600 False)) = 0.6"
proof -
  let ?run = "process_subreddit default_config example_runtime
        (example_reddit (Yield (example_post ''a'' 50 10 3600 False) Stop)) ''x'' 10
        fresh_state"
  from persisted_engagement_score_zero [where cfg = default_config and rt = example_runtime
      and reddit = "example_reddit (Yield (example_post ''a'' 50 10 3600 False) Stop)"
      and n = "''x''" and limit = 10 and st = fresh_state]
  obtain new where new: "submissions (db (fst ?run)) = submissions (db fresh_state) @ new"
      "\<forall>r\<in>set new. engagement_score r = SqlReal 0"
    by blast
  have "submissions (db fresh_state) = []"
    by (simp add: fresh_state_def setup_database_def)
  with new have a: "list_all (\<lambda>r. engagement_score r = SqlReal 0) (submissions (db (fst ?run)))"
    by (simp add: list_all_iff)
  have b: "length (submissions (db (fst ?run))) = 1"
    by (simp add: example_run(1))
  have c: "fst (calculate_engagement_rate (utcnow_timestamp example_runtime)
            (example_post ''a'' 50 10 3600 False)) = 0.6"
    by (simp add: calculate_engagement_rate_def utcnow_timestamp_def example_runtime_def
          example_post_def)
  from a b c show ?thesis by simp
qed

section \<open>Stickied submissions\<close>

text \<open>The loop body gives the same result whatever the flag \<open>stickied\<close> is.\<close>

lemma stickied_not_read:
  "sub_id (s\<lparr>sub_stickied := b\<rparr>) = sub_id s"
  "sub_title (s\<lparr>sub_stickied := b\<rparr>) = sub_title s"
  "analyze_submission (s\<lparr>sub_stickied := b\<rparr>) = analyze_submission s"
  "calculate_engagement_rate ct (s\<lparr>sub_stickied := b\<rparr>) = calculate_engagement_rate ct s"
  "submission_metrics rt (s\<lparr>sub_stickied := b\<rparr>) x = submission_metrics rt s x"
  "store_submission d now (s\<lparr>sub_stickied := b\<rparr>) a u = store_submission d now s a u"
  "learn_from_submission rt d (s\<lparr>sub_stickied := b\<rparr>) a u
     = learn_from_submission rt d s a u"
  by (simp_all add: analyze_submission_def calculate_engagement_rate_def
        submission_metrics_def store_submission_def learn_from_submission_def
        calculate_relevance_def calculate_novelty_def
      cong: sum.case_cong option.case_cong if_cong)

lemma process_submission_ignores_stickied:
  "process_submission cfg rt n st (s\<lparr>sub_stickied := b\<rparr>) = process_submission cfg rt n st s"
  unfolding process_submission_def stickied_not_read by (rule refl)

text \<open>
  Claim C8 says that a stickied submission is skipped. \<open>process_subreddit\<close> never reads
  the flag: a stickied submission that is new is scored, stored, returned in the list
  and used to update the subreddit's model.
\<close>

theorem stickied_submission_is_processed:
  "sub_stickied (example_post ''a'' 50 10 3600 True)
   \<and> map submission_id (submissions (db (fst (process_subreddit default_config
        example_runtime (example_reddit (Yield (example_post ''a'' 50 10 3600 True) Stop))
        ''x'' 10 fresh_state)))) = [''a'']
   \<and> snd (process_subreddit default_config example_runtime
        (example_reddit (Yield (example_post ''a'' 50 10 3600 True) Stop)) ''x'' 10
        fresh_state)
      = Inr [\<lparr>entry_id = ''a'', entry_title = ''A title'', entry_utility_score = 0.54,
            entry_metrics = \<lparr>engagement_rate = 0.6, sentiment_score = 0.5,
               relevance_score = 0.5, novelty_score = 0.5\<rparr>\<rparr>]
   \<and> subreddit_models (fst (process_subreddit default_config example_runtime
        (example_reddit (Yield (example_post ''a'' 50 10 3600 True) Stop)) ''x'' 10
        fresh_state)) ''x''
      = Some [(''avg_engagement'', PNum 0.6), (''avg_sentiment'', PNum 0.5),
           (''avg_relevance'', PNum 0.5), (''avg_novelty'', PNum 0.5)]"
  by (simp add: run_simps)

section \<open>Failures are contained\<close>

lemma process_subreddit_returns:
  "\<exists>r. snd (process_subreddit cfg rt reddit n limit st) = Inr r"
  by (simp add: process_subreddit_def split: prod.splits sum.splits)

lemma process_subreddit_private:
  "subreddit_type (reddit n) = Inr ''private'' \<Longrightarrow>
   process_subreddit cfg rt reddit n limit st = (log_error (private_message n) st, Inr [])"
  by (simp add: process_subreddit_def process_subreddit_body_def)

lemma process_subreddit_raises:
  "subreddit_type (reddit n) = Inl e \<Longrightarrow>
   process_subreddit cfg rt reddit n limit st =
     (log_error (if fst e = Redirect then redirect_message n
                 else if fst e = Forbidden then forbidden_message n
                 else generic_message n e) st, Inr [])"
  by (simp add: process_subreddit_def process_subreddit_body_def)

lemma messages_distinct:
  "private_message n \<noteq> redirect_message n"
  "private_message n \<noteq> forbidden_message n"
  "private_message n \<noteq> generic_message n e"
  "redirect_message n \<noteq> forbidden_message n"
  "redirect_message n \<noteq> generic_message n e"
  "forbidden_message n \<noteq> generic_message n e"
  by (simp_all add: private_message_def redirect_message_def forbidden_message_def
        generic_message_def)

lemma process_listing_continues:
  "process_submission cfg rt n st s = (st', Inl e) \<Longrightarrow>
   process_listing cfg rt n (Yield s rest) st acc =
     process_listing cfg rt n rest
       (log_error (''Error processing submission '' @ sub_id s @ '': '' @ snd e) st') acc"
  by simp

lemma process_listing_iterator_raises:
  "process_listing cfg rt n (Raises e) st acc = (st, Inl e)"
  by simp

text \<open>
  Claim C6, as stated, fails in its last part: a storage failure does not reach the
  caller. With a database that cannot be opened, \<open>is_submission_processed\<close> raises inside
  the inner \<open>try\<close>, the handler logs it, and \<open>process_subreddit\<close> returns the empty list.
\<close>

theorem storage_failure_is_swallowed:
  "\<not> db_available (db broken_state)
   \<and> process_subreddit default_config example_runtime
        (example_reddit (Yield (example_post ''a'' 50 10 3600 False) Stop)) ''x'' 10
        broken_state
      = (log_error ''Error processing submission a: unable to open database file''
           broken_state, Inr [])"
  by (simp add: process_subreddit_def process_subreddit_body_def example_reddit_def
        process_submission_unavailable broken_state_def unavailable_def example_post_def)

text \<open>
  Claim C6, amended. \<open>process_subreddit\<close> always returns a list. A private subreddit, a
  redirect, a forbidden access and any other exception of the access each log their own
  message and return the empty list. An exception raised while one submission is handled
  is logged and the loop goes on with the next submission. A database that cannot be
  opened is such an exception: it is raised for the submission and caught with the rest.
\<close>

theorem failures_are_contained:
  "(\<exists>r. snd (process_subreddit cfg rt reddit n limit st) = Inr r)
   \<and> (subreddit_type (reddit n) = Inr ''private'' \<longrightarrow>
        process_subreddit cfg rt reddit n limit st
          = (log_error (private_message n) st, Inr []))
   \<and> (subreddit_type (reddit n) = Inl e \<and> fst e = Redirect \<longrightarrow>
        process_subreddit cfg rt reddit n limit st
          = (log_error (redirect_message n) st, Inr []))
   \<and> (subreddit_type (reddit n) = Inl e \<and> fst e = Forbidden \<longrightarrow>
        process_subreddit cfg rt reddit n limit st
          = (log_error (forbidden_message n) st, Inr []))
   \<and> (subreddit_type (reddit n) = Inl e \<and> fst e \<noteq> Redirect \<and> fst e \<noteq> Forbidden \<longrightarrow>
        process_subreddit cfg rt reddit n limit st
          = (log_error (generic_message n e) st, Inr []))
   \<and> distinct [private_message n, redirect_message n, forbidden_message n,
                generic_message n e]
   \<and> (process_submission cfg rt n st s = (st', Inl e') \<longrightarrow>
        process_listing cfg rt n (Yield s rest) st acc =
          process_listing cfg rt n rest
            (log_error (''Error processing submission '' @ sub_id s @ '': '' @ snd e') st')
            acc)
   \<and> (\<not> db_available (db st) \<longrightarrow>
        process_submission cfg rt n st s = (st, Inl unavailable))"
proof (intro conjI impI)
  show "\<exists>r. snd (process_subreddit cfg rt reddit n limit st) = Inr r"
    by (rule process_subreddit_returns)
  show "distinct [private_message n, redirect_message n, forbidden_message n,
                generic_message n e]"
    using messages_distinct by simp
next
  assume "subreddit_type (reddit n) = Inr ''private''"
  then show "process_subreddit cfg rt reddit n limit st
          = (log_error (private_message n) st, Inr [])"
    by (rule process_subreddit_private)
next
  assume "subreddit_type (reddit n) = Inl e \<and> fst e = Redirect"
  then show "process_subreddit cfg rt reddit n limit st
          = (log_error (redirect_message n) st, Inr [])"
    by (simp add: process_subreddit_raises)
next
  assume "subreddit_type (reddit n) = Inl e \<and> fst e = Forbidden"
  then show "process_subreddit cfg rt reddit n limit st
          = (log_error (forbidden_message n) st, Inr [])"
    by (simp add: process_subreddit_raises)
next
  assume "subreddit_type (reddit n) = Inl e \<and> fst e \<noteq> Redirect \<and> fst e \<noteq> Forbidden"
  then show "process_subreddit cfg rt reddit n limit st
          = (log_error (generic_message n e) st, Inr [])"
    by (simp add: process_subreddit_raises)
next
  assume "process_submission cfg rt n st s = (st', Inl e')"
  then show "process_listing cfg rt n (Yield s rest) st acc =
          process_listing cfg rt n rest
            (log_error (''Error processing submission '' @ sub_id s @ '': '' @ snd e') st')
            acc"
    by (rule process_listing_continues)
next
  assume "\<not> db_available (db st)"
  then show "process_submission cfg rt n st s = (st, Inl unavailable)"
    by (rule process_submission_unavailable)
qed

lemma undated_fails:
  "process_submission default_config example_runtime ''x'' fresh_state (undated_post ''b'')
   = (fresh_state, Inl (AttributeError, ''created_utc''))"
  by (simp add: process_submission_def is_submission_processed_def fresh_state_def
        setup_database_def store_submission_analyzed analyze_lookup Let_def
        undated_post_def calculate_engagement_rate_def)

lemma dated_after_undated:
  "snd (process_listing default_config example_runtime ''x''
          (Yield (example_post ''a'' 50 10 3600 False) Stop)
          (log_error ''Error processing submission b: created_utc'' fresh_state) [])
   = Inr [\<lparr>entry_id = ''a'', entry_title = ''A title'', entry_utility_score = 0.54,
            entry_metrics = \<lparr>engagement_rate = 0.6, sentiment_score = 0.5,
               relevance_score = 0.5, novelty_score = 0.5\<rparr>\<rparr>]"
  "logs (fst (process_listing default_config example_runtime ''x''
          (Yield (example_post ''a'' 50 10 3600 False) Stop)
          (log_error ''Error processing submission b: created_utc'' fresh_state) []))
   = [(ERROR, ''Error processing submission b: created_utc'')]"
  by (simp_all add: run_simps)

text \<open>
  The three inaccessible subreddits, a batch whose first submission fails and whose second
  is processed, and a submission met with the database closed.
\<close>

theorem failures_are_contained_witness:
  "process_subreddit default_config example_runtime private_reddit ''x'' 10 fresh_state
     = (log_error (private_message ''x'') fresh_state, Inr [])
   \<and> process_subreddit default_config example_runtime
        (failing_reddit (Redirect, ''redirect to /subreddits/search'')) ''x'' 10 fresh_state
     = (log_error (redirect_message ''x'') fresh_state, Inr [])
   \<and> process_subreddit default_config example_runtime
        (failing_reddit (Forbidden, ''received 403 HTTP response'')) ''x'' 10 fresh_state
     = (log_error (forbidden_message ''x'') fresh_state, Inr [])
   \<and> snd (process_listing default_config example_runtime ''x''
        (Yield (undated_post ''b'') (Yield (example_post ''a'' 50 10 3600 False) Stop))
        fresh_state [])
     = Inr [\<lparr>entry_id = ''a'', entry_title = ''A title'', entry_utility_score = 0.54,
            entry_metrics = \<lparr>engagement_rate = 0.6, sentiment_score = 0.5,
               relevance_score = 0.5, novelty_score = 0.5\<rparr>\<rparr>]
   \<and> logs (fst (process_listing default_config example_runtime ''x''
        (Yield (undated_post ''b'') (Yield (example_post ''a'' 50 10 3600 False) Stop))
        fresh_state []))
     = [(ERROR, ''Error processing submission b: created_utc'')]
   \<and> process_submission default_config example_runtime ''x'' broken_state
        (example_post ''a'' 50 10 3600 False)
     = (broken_state, Inl unavailable)"
proof -
  have a: "process_subreddit default_config example_runtime private_reddit ''x'' 10
             fresh_state
           = (log_error (private_message ''x'') fresh_state, Inr [])"
    using failures_are_contained [where reddit = private_reddit and n = "''x''"
        and cfg = default_config and rt = example_runtime and limit = 10
        and st = fresh_state]
    by (simp add: private_reddit_def)
  have b: "process_subreddit default_config example_runtime
        (failing_reddit (Redirect, ''redirect to /subreddits/search'')) ''x'' 10 fresh_state
     = (log_error (redirect_message ''x'') fresh_state, Inr [])"
    using failures_are_contained [where n = "''x''"
        and reddit = "failing_reddit (Redirect, ''redirect to /subreddits/search'')"
        and e = "(Redirect, ''redirect to /subreddits/search'')"
        and cfg = default_config and rt = example_runtime and limit = 10
        and st = fresh_state]
    by (simp add: failing_reddit_def)
  have c: "process_subreddit default_config example_runtime
        (failing_reddit (Forbidden, ''received 403 HTTP response'')) ''x'' 10 fresh_state
     = (log_error (forbidden_message ''x'') fresh_state, Inr [])"
    using failures_are_contained [where n = "''x''"
        and reddit = "failing_reddit (Forbidden, ''received 403 HTTP response'')"
        and e = "(Forbidden, ''received 403 HTTP response'')"
        and cfg = default_config and rt = example_runtime and limit = 10
        and st = fresh_state]
    by (simp add: failing_reddit_def)
  note step = failures_are_contained [where cfg = default_config and rt = example_runtime
        and n = "''x''" and st = fresh_state and s = "undated_post ''b''"
        and st' = fresh_state and e' = "(AttributeError, ''created_utc'')"
        and rest = "Yield (example_post ''a'' 50 10 3600 False) Stop" and acc = "[]",
        THEN conjunct2, THEN conjunct2, THEN conjunct2, THEN conjunct2, THEN conjunct2,
        THEN conjunct2, THEN conjunct1, THEN mp, OF undated_fails]
  have id: "log_error (''Error processing submission '' @ sub_id (undated_post ''b'') @ '': ''
                  @ snd (AttributeError, ''created_utc'')) fresh_state
            = log_error ''Error processing submission b: created_utc'' fresh_state"
    by (simp add: undated_post_def)
  have d: "snd (process_listing default_config example_runtime ''x''
        (Yield (undated_post ''b'') (Yield (example_post ''a'' 50 10 3600 False) Stop))
        fresh_state [])
     = Inr [\<lparr>entry_id = ''a'', entry_title = ''A title'', entry_utility_score = 0.54,
            entry_metrics = \<lparr>engagement_rate = 0.6, sentiment_score = 0.5,
               relevance_score = 0.5, novelty_score = 0.5\<rparr>\<rparr>]"
    unfolding step id by (rule dated_after_undated)
  have e: "logs (fst (process_listing default_config example_runtime ''x''
        (Yield (undated_post ''b'') (Yield (example_post ''a'' 50 10 3600 False) Stop))
        fresh_state []))
     = [(ERROR, ''Error processing submission b: created_utc'')]"
    unfolding step id by (rule dated_after_undated)
  have f: "process_submission default_config example_runtime ''x'' broken_state
        (example_post ''a'' 50 10 3600 False)
     = (broken_state, Inl unavailable)"
    using failures_are_contained [where cfg = default_config and rt = example_runtime
        and n = "''x''" and st = broken_state and s = "example_post ''a'' 50 10 3600 False"]
    by (simp add: broken_state_def)
  from a b c d e f show ?thesis by simp
qed

section \<open>Recommendations\<close>

lemma order_desc_sorted: "sorted_wrt (\<lambda>a b. k b \<le> k a) (order_desc k xs)"
proof -
  have "sorted (map (\<lambda>x. - k x) (sort_key (\<lambda>x. - k x) xs))" by (rule sorted_sort_key)
  then show ?thesis by (simp add: order_desc_def sorted_wrt_map)
qed

lemma order_desc_idem: "order_desc k (order_desc k xs) = order_desc k xs"
  unfolding order_desc_def by (rule sort_key_id_if_sorted) (rule sorted_sort_key)

lemma order_desc_stable:
  "filter (\<lambda>x. k x = c) (order_desc k xs) = filter (\<lambda>x. k x = c) xs"
proof -
  have "filter (\<lambda>x. - k x = - c) (sort_key (\<lambda>x. - k x) xs) = filter (\<lambda>x. - k x = - c) xs"
    by (rule sort_key_stable)
  then show ?thesis by (simp add: order_desc_def)
qed

lemma order_desc_length: "length (order_desc k xs) = length xs"
  by (simp add: order_desc_def)

lemma order_desc_set: "set (order_desc k xs) = set xs"
  by (simp add: order_desc_def)

lemma recommend_all_maps:
  "recommend_all ps m = Inr recs \<Longrightarrow>
   map rec_confidence recs = map confidence ps \<and> map rec_type recs = map pattern_type ps"
  by (induction ps arbitrary: recs) (auto split: sum.splits)

lemma sorted_desc_take:
  "sorted_wrt (\<lambda>a b. k b \<le> k a) xs \<Longrightarrow> sorted_wrt (\<lambda>a b. b \<le> a) (map k (take n xs))"
  by (simp add: sorted_wrt_map sorted_wrt_take)

lemma order_desc_Nil_iff: "order_desc k xs = [] \<longleftrightarrow> xs = []"
  using order_desc_length [of k xs] by (metis length_0_conv)

lemma get_recommendations_unfold:
  assumes "db_available (db st)"
  shows "get_recommendations st sr =
     (if filter (\<lambda>p. pattern_subreddit p = sr) (learned_patterns (db st)) \<noteq> []
         \<and> (case subreddit_models st sr of None \<Rightarrow> [] | Some m \<Rightarrow> m) \<noteq> []
      then recommend_all
             (take 5 (order_desc confidence
                (filter (\<lambda>p. pattern_subreddit p = sr) (learned_patterns (db st)))))
             (case subreddit_models st sr of None \<Rightarrow> [] | Some m \<Rightarrow> m)
      else Inr [])"
  using assms
  by (simp add: get_recommendations_def get_patterns_def Let_def order_desc_idem
        order_desc_Nil_iff)

lemma get_recommendations_unavailable:
  "\<not> db_available (db st) \<Longrightarrow> get_recommendations st sr = Inl unavailable"
  by (simp add: get_recommendations_def get_patterns_def)

lemma get_recommendations_maps:
  assumes "get_recommendations st sr = Inr recs"
  shows "recs = [] \<or>
     (map rec_confidence recs = map confidence (take 5 (order_desc confidence
          (filter (\<lambda>p. pattern_subreddit p = sr) (learned_patterns (db st)))))
      \<and> map rec_type recs = map pattern_type (take 5 (order_desc confidence
          (filter (\<lambda>p. pattern_subreddit p = sr) (learned_patterns (db st))))))"
proof (cases "db_available (db st)")
  case False
  with assms show ?thesis by (simp add: get_recommendations_unavailable unavailable_def)
next
  case True
  show ?thesis
  proof (cases "filter (\<lambda>p. pattern_subreddit p = sr) (learned_patterns (db st)) \<noteq> []
         \<and> (case subreddit_models st sr of None \<Rightarrow> [] | Some m \<Rightarrow> m) \<noteq> []")
    case False
    with assms True have "recs = []"
      by (simp add: get_recommendations_unfold split: if_splits)
    then show ?thesis by simp
  next
    case both: True
    with assms True have "recommend_all
             (take 5 (order_desc confidence
                (filter (\<lambda>p. pattern_subreddit p = sr) (learned_patterns (db st)))))
             (case subreddit_models st sr of None \<Rightarrow> [] | Some m \<Rightarrow> m) = Inr recs"
      by (simp add: get_recommendations_unfold)
    from recommend_all_maps [OF this] show ?thesis by simp
  qed
qed

lemma generate_suggestion_unrecognized:
  "pattern_type p \<noteq> ''successful_post'' \<Longrightarrow>
   generate_suggestion p m = Inr ''No specific suggestion available''"
  by (simp add: generate_suggestion_def)

text \<open>
  Claim C7, as stated, fails where patterns exist and model data does not (after a
  restart, say: the model is in memory only): the guard is \<open>patterns and model_data\<close>,
  so the result is empty although six patterns are stored.
\<close>

theorem recommendations_need_model_data:
  "filter (\<lambda>p. pattern_subreddit p = ''x'') (learned_patterns (db restarted_state))
     = example_patterns
   \<and> length example_patterns = 6
   \<and> get_recommendations restarted_state ''x'' = Inr []"
  by (simp add: get_recommendations_def get_patterns_def restarted_state_def
        learned_state_def example_patterns_def example_pattern_def)

text \<open>
  Claim C7, amended. With the database open, the result is empty when the subreddit has
  no pattern or no model data. A result never has more than 5 elements and its
  confidences never increase. When both exist, the result has one recommendation for
  each of the 5 first patterns in descending order of confidence, with its type and
  confidence; patterns of equal confidence keep their insertion order; and a pattern of
  another type than \<open>successful_post\<close> gets the placeholder suggestion.
\<close>

theorem recommendations_top_five:
  "(db_available (db st)
      \<and> (filter (\<lambda>p. pattern_subreddit p = sr) (learned_patterns (db st)) = []
          \<or> (case subreddit_models st sr of None \<Rightarrow> [] | Some m \<Rightarrow> m) = [])
      \<longrightarrow> get_recommendations st sr = Inr [])
   \<and> (get_recommendations st sr = Inr recs
      \<longrightarrow> length recs \<le> 5 \<and> sorted_wrt (\<lambda>a b. b \<le> a) (map rec_confidence recs))
   \<and> (filter (\<lambda>p. pattern_subreddit p = sr) (learned_patterns (db st)) \<noteq> []
      \<and> (case subreddit_models st sr of None \<Rightarrow> [] | Some m \<Rightarrow> m) \<noteq> []
      \<and> get_recommendations st sr = Inr recs
      \<longrightarrow> map rec_confidence recs = map confidence (take 5 (order_desc confidence
              (filter (\<lambda>p. pattern_subreddit p = sr) (learned_patterns (db st)))))
        \<and> map rec_type recs = map pattern_type (take 5 (order_desc confidence
              (filter (\<lambda>p. pattern_subreddit p = sr) (learned_patterns (db st))))))
   \<and> filter (\<lambda>p. confidence p = c) (order_desc confidence
         (filter (\<lambda>p. pattern_subreddit p = sr) (learned_patterns (db st))))
       = filter (\<lambda>p. confidence p = c)
           (filter (\<lambda>p. pattern_subreddit p = sr) (learned_patterns (db st)))
   \<and> (pattern_type p \<noteq> ''successful_post''
      \<longrightarrow> generate_suggestion p m = Inr ''No specific suggestion available'')"
proof (intro conjI impI)
  assume "db_available (db st)
      \<and> (filter (\<lambda>p. pattern_subreddit p = sr) (learned_patterns (db st)) = []
          \<or> (case subreddit_models st sr of None \<Rightarrow> [] | Some m \<Rightarrow> m) = [])"
  then show "get_recommendations st sr = Inr []"
    by (auto simp: get_recommendations_unfold)
next
  assume r: "get_recommendations st sr = Inr recs"
  let ?top = "take 5 (order_desc confidence
          (filter (\<lambda>p. pattern_subreddit p = sr) (learned_patterns (db st))))"
  from get_recommendations_maps [OF r]
  have c: "recs = [] \<or> map rec_confidence recs = map confidence ?top" by blast
  have "length (map confidence ?top) \<le> 5" by simp
  with c have "length (map rec_confidence recs) \<le> 5" by (elim disjE) simp_all
  then show "length recs \<le> 5" by simp
  have "sorted_wrt (\<lambda>a b. b \<le> a) (map confidence ?top)"
    by (rule sorted_desc_take) (rule order_desc_sorted)
  with c show "sorted_wrt (\<lambda>a b. b \<le> a) (map rec_confidence recs)"
    by (elim disjE) simp_all
next
  assume h: "filter (\<lambda>p. pattern_subreddit p = sr) (learned_patterns (db st)) \<noteq> []
      \<and> (case subreddit_models st sr of None \<Rightarrow> [] | Some m \<Rightarrow> m) \<noteq> []
      \<and> get_recommendations st sr = Inr recs"
  then have r: "get_recommendations st sr = Inr recs" by simp
  have av: "db_available (db st)"
    using r get_recommendations_unavailable [of st sr] by (cases "db_available (db st)") simp_all
  from h have h1: "filter (\<lambda>p. pattern_subreddit p = sr) (learned_patterns (db st)) \<noteq> []"
    and h2: "(case subreddit_models st sr of None \<Rightarrow> [] | Some m \<Rightarrow> m) \<noteq> []"
    by simp_all
  from r av h1 h2 have "recommend_all
             (take 5 (order_desc confidence
                (filter (\<lambda>p. pattern_subreddit p = sr) (learned_patterns (db st)))))
             (case subreddit_models st sr of None \<Rightarrow> [] | Some m \<Rightarrow> m) = Inr recs"
    by (simp add: get_recommendations_unfold)
  from recommend_all_maps [OF this]
  show "map rec_confidence recs = map confidence (take 5 (order_desc confidence
              (filter (\<lambda>p. pattern_subreddit p = sr) (learned_patterns (db st)))))"
    and "map rec_type recs = map pattern_type (take 5 (order_desc confidence
              (filter (\<lambda>p. pattern_subreddit p = sr) (learned_patterns (db st)))))"
    by simp_all
next
  show "filter (\<lambda>p. confidence p = c) (order_desc confidence
         (filter (\<lambda>p. pattern_subreddit p = sr) (learned_patterns (db st))))
       = filter (\<lambda>p. confidence p = c)
           (filter (\<lambda>p. pattern_subreddit p = sr) (learned_patterns (db st)))"
    by (rule order_desc_stable)
next
  assume "pattern_type p \<noteq> ''successful_post''"
  then show "generate_suggestion p m = Inr ''No specific suggestion available''"
    by (rule generate_suggestion_unrecognized)
qed

lemma show_nat_examples: "show_nat 14 = ''14''" "show_nat 120 = ''120''"
  by code_simp+

lemma example_recommendations:
  "get_recommendations learned_state ''x'' =
     Inr [\<lparr>rec_type = ''successful_post'', rec_confidence = 0.95,
            rec_suggestion = ''Consider posting during hour 14 with content length around 120 characters focusing on topics: general, news''\<rparr>,
          \<lparr>rec_type = ''experiment'', rec_confidence = 0.9,
            rec_suggestion = ''No specific suggestion available''\<rparr>,
          \<lparr>rec_type = ''successful_post'', rec_confidence = 0.8,
            rec_suggestion = ''Consider posting during hour 14 with content length around 120 characters focusing on topics: general, news''\<rparr>,
          \<lparr>rec_type = ''successful_post'', rec_confidence = 0.8,
            rec_suggestion = ''Consider posting during hour 14 with content length around 120 characters focusing on topics: general, news''\<rparr>,
          \<lparr>rec_type = ''successful_post'', rec_confidence = 0.75,
            rec_suggestion = ''Consider posting during hour 14 with content length around 120 characters focusing on topics: general, news''\<rparr>]"
  by (simp add: get_recommendations_def get_patterns_def learned_state_def
      example_patterns_def example_pattern_def order_desc_def generate_suggestion_def
      show_nat_examples)

lemma example_ranking:
  "map pattern_id (order_desc confidence
      (filter (\<lambda>p. pattern_subreddit p = ''x'') (learned_patterns (db learned_state))))
   = [5, 2, 1, 3, 4, 6]"
  by (simp add: learned_state_def example_patterns_def example_pattern_def order_desc_def)

text \<open>
  Six stored patterns and a model: five recommendations come back, in descending
  confidence, the two patterns of confidence 0.8 in insertion order (rows 1 and 3), the
  pattern of an unknown type with the placeholder.
\<close>

theorem recommendations_top_five_witness:
  "map_sum id (map rec_confidence) (get_recommendations learned_state ''x'')
     = Inr [0.95, 0.9, 0.8, 0.8, 0.75]
   \<and> map_sum id (map rec_type) (get_recommendations learned_state ''x'')
     = Inr [''successful_post'', ''experiment'', ''successful_post'', ''successful_post'',
            ''successful_post'']
   \<and> map pattern_id (order_desc confidence
        (filter (\<lambda>p. pattern_subreddit p = ''x'') (learned_patterns (db learned_state))))
     = [5, 2, 1, 3, 4, 6]
   \<and> sorted_wrt (\<lambda>a b. b \<le> a) [0.95, 0.9, 0.8, 0.8, 0.75 :: real]
   \<and> generate_suggestion (example_pattern 2 ''experiment'' 0.9) []
     = Inr ''No specific suggestion available''"
proof -
  let ?recs = "[\<lparr>rec_type = ''successful_post'', rec_confidence = 0.95,
            rec_suggestion = ''Consider posting during hour 14 with content length around 120 characters focusing on topics: general, news''\<rparr>,
          \<lparr>rec_type = ''experiment'', rec_confidence = 0.9,
            rec_suggestion = ''No specific suggestion available''\<rparr>,
          \<lparr>rec_type = ''successful_post'', rec_confidence = 0.8,
            rec_suggestion = ''Consider posting during hour 14 with content length around 120 characters focusing on topics: general, news''\<rparr>,
          \<lparr>rec_type = ''successful_post'', rec_confidence = 0.8,
            rec_suggestion = ''Consider posting during hour 14 with content length around 120 characters focusing on topics: general, news''\<rparr>,
          \<lparr>rec_type = ''successful_post'', rec_confidence = 0.75,
            rec_suggestion = ''Consider posting during hour 14 with content length around 120 characters focusing on topics: general, news''\<rparr>]"
  note t = recommendations_top_five [where st = learned_state and sr = "''x''"
      and recs = ?recs and p = "example_pattern 2 ''experiment'' 0.9" and m = "[]"]
  have a: "map_sum id (map rec_confidence) (get_recommendations learned_state ''x'')
     = Inr [0.95, 0.9, 0.8, 0.8, 0.75]"
    by (simp add: example_recommendations)
  have b: "map_sum id (map rec_type) (get_recommendations learned_state ''x'')
     = Inr [''successful_post'', ''experiment'', ''successful_post'', ''successful_post'',
            ''successful_post'']"
    by (simp add: example_recommendations)
  from t [THEN conjunct2, THEN conjunct1, THEN mp, OF example_recommendations]
  have c: "sorted_wrt (\<lambda>a b. b \<le> a) [0.95, 0.9, 0.8, 0.8, 0.75 :: real]"
    by simp
  have ty: "pattern_type (example_pattern 2 ''experiment'' 0.9) \<noteq> ''successful_post''"
    by (simp add: example_pattern_def)
  from t [THEN conjunct2, THEN conjunct2, THEN conjunct2, THEN conjunct2, THEN mp, OF ty]
  have d: "generate_suggestion (example_pattern 2 ''experiment'' 0.9) []
     = Inr ''No specific suggestion available''" .
  from a b example_ranking c d show ?thesis by (intro conjI)
qed

section \<open>Parsing the oracle's response\<close>

lemma takeWhile_prefix_stop:
  "\<forall>x\<in>set xs. P x \<Longrightarrow> \<not> P y \<Longrightarrow> takeWhile P (xs @ y # ys) = xs"
  by (induction xs) auto

lemma takeWhile_shorter:
  "c \<in> set xs \<Longrightarrow> length (takeWhile (\<lambda>x. x \<noteq> c) xs) < length xs"
  by (induction xs) auto

lemma py_find_first:
  assumes "c \<notin> set pre"
  shows "py_find (pre @ c # rest) c = int (length pre)"
proof -
  have "takeWhile (\<lambda>x. x \<noteq> c) (pre @ c # rest) = pre"
    using assms by (intro takeWhile_prefix_stop) auto
  then show ?thesis by (simp add: py_find_def)
qed

lemma py_rfind_last:
  assumes "c \<notin> set post"
  shows "py_rfind (front @ c # post) c = int (length front)"
proof -
  have "rev (front @ c # post) = rev post @ c # rev front" by simp
  moreover have "takeWhile (\<lambda>x. x \<noteq> c) (rev post @ c # rev front) = rev post"
    using assms by (intro takeWhile_prefix_stop) auto
  ultimately have "length (takeWhile (\<lambda>x. x \<noteq> c) (rev (front @ c # post))) = length post"
    by simp
  then show ?thesis by (simp add: py_rfind_def)
qed

lemma take_length_append: "take (length xs) (xs @ ys) = xs"
  by simp

lemma slice_index_int: "slice_index s (int k) = min k (length s)"
  by (simp add: slice_index_def)

lemma wrapped_object_slice:
  assumes "CHR ''{'' \<notin> set pre" "CHR ''}'' \<notin> set post"
  shows "py_slice (pre @ CHR ''{'' # body @ CHR ''}'' # post)
           (py_find (pre @ CHR ''{'' # body @ CHR ''}'' # post) CHR ''{'')
           (py_rfind (pre @ CHR ''{'' # body @ CHR ''}'' # post) CHR ''}'' + 1)
         = CHR ''{'' # body @ [CHR ''}'']"
proof -
  let ?s = "pre @ CHR ''{'' # body @ CHR ''}'' # post"
  let ?obj = "CHR ''{'' # body @ [CHR ''}'']"
  have f: "py_find ?s CHR ''{'' = int (length pre)"
    using assms(1) by (rule py_find_first)
  have "?s = (pre @ CHR ''{'' # body) @ CHR ''}'' # post" by simp
  then have "py_rfind ?s CHR ''}'' = int (length (pre @ CHR ''{'' # body))"
    using py_rfind_last [OF assms(2), of "pre @ CHR ''{'' # body"] by simp
  then have r: "py_rfind ?s CHR ''}'' + 1 = int (length (pre @ ?obj))" by simp
  have s: "?s = (pre @ ?obj) @ post" by simp
  have "py_slice ?s (int (length pre)) (int (length (pre @ ?obj)))
      = drop (length pre) (take (length (pre @ ?obj)) ((pre @ ?obj) @ post))"
    unfolding py_slice_def slice_index_int s by simp
  also have "\<dots> = drop (length pre) (pre @ ?obj)"
    by (simp only: take_length_append)
  also have "\<dots> = ?obj" by simp
  finally show ?thesis unfolding f r .
qed

lemma safe_parse_json_parsed:
  "loads s = Inr v \<Longrightarrow> safe_parse_json loads s = (Inr v, [])"
  by (simp add: safe_parse_json_def)

lemma py_find_minus_one: "py_find s c = - 1 \<longleftrightarrow> c \<notin> set s"
  by (simp add: py_find_def)

lemma py_rfind_minus_one: "py_rfind s c + 1 = 0 \<longleftrightarrow> c \<notin> set s"
proof (cases "c \<in> set s")
  case True
  then have "c \<in> set (rev s)" by simp
  from takeWhile_shorter [OF this]
  have "length (takeWhile (\<lambda>x. x \<noteq> c) (rev s)) < length s" by simp
  with True show ?thesis by (simp add: py_rfind_def)
next
  case False
  then show ?thesis by (simp add: py_rfind_def)
qed

lemma safe_parse_json_no_braces:
  assumes "loads s = Inl e" "fst e = JSONDecodeError"
    and "CHR ''{'' \<notin> set s \<or> CHR ''}'' \<notin> set s"
  shows "fst (safe_parse_json loads s) = Inr (JObject [])"
  using assms by (auto simp: safe_parse_json_def Let_def py_find_minus_one py_rfind_minus_one)

lemma safe_parse_json_braces:
  assumes "loads s = Inl e" "fst e = JSONDecodeError"
    and "CHR ''{'' \<in> set s" "CHR ''}'' \<in> set s"
  shows "fst (safe_parse_json loads s) =
     (case loads (py_slice s (py_find s CHR ''{'') (py_rfind s CHR ''}'' + 1)) of
        Inr v \<Rightarrow> Inr v
      | Inl e' \<Rightarrow> if fst e' = JSONDecodeError \<or> fst e' = ValueError
                  then Inr (JObject []) else Inl e')"
  using assms
  by (auto simp: safe_parse_json_def Let_def py_find_minus_one py_rfind_minus_one
      split: sum.splits)

lemma safe_parse_json_returns:
  assumes "\<forall>x e. loads x = Inl e \<longrightarrow> fst e = JSONDecodeError"
  shows "\<exists>v. fst (safe_parse_json loads s) = Inr v"
  using assms
  by (auto simp: safe_parse_json_def Let_def split: sum.splits)

lemma example_loads_raises:
  "\<forall>x e. example_loads x = Inl e \<longrightarrow> fst e = JSONDecodeError"
  by (auto simp: example_loads_def split: if_splits)

lemma safe_parse_json_propagates:
  assumes "loads s = Inl e" "fst e \<noteq> JSONDecodeError"
  shows "fst (safe_parse_json loads s) = Inl e"
  using assms by (simp add: safe_parse_json_def)

lemma takeWhile_replicate_prefix:
  assumes "P x" "\<not> P y" "0 < m"
  shows "takeWhile P (replicate n x @ replicate m y) = replicate n x"
proof (induction n)
  case 0
  from assms(2,3) show ?case by (cases m) simp_all
next
  case (Suc n)
  with assms(1) show ?case by simp
qed

lemma deep_nesting:
  "nesting_loads (replicate 2000 CHR ''['' @ replicate 2000 CHR '']'')
     = Inl (RecursionError, ''maximum recursion depth exceeded'')"
proof -
  have "takeWhile (\<lambda>c. c = CHR ''['') (replicate 2000 CHR ''['' @ replicate 2000 CHR '']'')
      = replicate 2000 CHR ''[''"
    by (rule takeWhile_replicate_prefix) simp_all
  then show ?thesis by (simp add: nesting_loads_def)
qed

text \<open>
  The substring runs to the last closing brace: with two objects in the text it spans
  both.
\<close>

lemma two_objects_slice:
  "py_slice ''a {x} b {y} c'' (py_find ''a {x} b {y} c'' CHR ''{'')
     (py_rfind ''a {x} b {y} c'' CHR ''}'' + 1) = ''{x} b {y}''"
  by (simp add: py_find_def py_rfind_def py_slice_def slice_index_def)

text \<open>
  Claim C9 as the specification words it does not hold. \<open>safe_parse_json\<close> raises what
  \<open>json.loads\<close> raises outside the two handlers: on two thousand nested arrays the
  parser raises \<open>RecursionError\<close>, and so does \<open>safe_parse_json\<close>. And it does not parse
  the first object of a text: for a text with two objects, the first of which parses, it
  returns the empty object.
\<close>

theorem safe_parse_json_raises_and_spans:
  "fst (safe_parse_json nesting_loads (replicate 2000 CHR ''['' @ replicate 2000 CHR '']''))
     = Inl (RecursionError, ''maximum recursion depth exceeded'')
   \<and> example_loads example_object = Inr (JObject [(''a'', JNumber 1)])
   \<and> fst (safe_parse_json example_loads (''One: '' @ example_object @ '' Two: '' @ example_object))
     = Inr (JObject [])"
proof (intro conjI)
  show "fst (safe_parse_json nesting_loads
          (replicate 2000 CHR ''['' @ replicate 2000 CHR '']''))
     = Inl (RecursionError, ''maximum recursion depth exceeded'')"
    by (rule safe_parse_json_propagates [where loads = nesting_loads, OF deep_nesting]) simp
next
  show "example_loads example_object = Inr (JObject [(''a'', JNumber 1)])"
    by (simp add: example_loads_def)
next
  show "fst (safe_parse_json example_loads
          (''One: '' @ example_object @ '' Two: '' @ example_object)) = Inr (JObject [])"
    by (simp add: safe_parse_json_def example_loads_def example_object_def py_find_def
        py_rfind_def py_slice_def slice_index_def)
qed

text \<open>
  Claim C9, amended. When \<open>json.loads\<close> raises nothing but \<open>JSONDecodeError\<close>,
  \<open>safe_parse_json\<close> returns a value for every string; an exception of \<open>json.loads\<close>
  that is neither \<open>JSONDecodeError\<close> nor \<open>ValueError\<close> leaves \<open>safe_parse_json\<close>
  unchanged. A text that parses is returned parsed. A text that does not parse and lacks
  an opening or a closing brace gives the empty object. A text that does not parse and has
  both gives what the substring from its first opening brace to its last closing brace
  parses to, or the empty object when that substring does not parse either. For an object
  wrapped in text with no opening brace before it and no closing brace after it, that
  substring is the object.
\<close>

theorem safe_parse_json_contract:
  "((\<forall>x e. loads x = Inl e \<longrightarrow> fst e = JSONDecodeError)
      \<longrightarrow> (\<exists>v. fst (safe_parse_json loads s) = Inr v))
   \<and> (loads s = Inl e \<and> fst e \<noteq> JSONDecodeError \<and> fst e \<noteq> ValueError
      \<longrightarrow> fst (safe_parse_json loads s) = Inl e)
   \<and> (loads s = Inr v \<longrightarrow> fst (safe_parse_json loads s) = Inr v)
   \<and> (loads s = Inl e \<and> fst e = JSONDecodeError
        \<and> (CHR ''{'' \<notin> set s \<or> CHR ''}'' \<notin> set s)
      \<longrightarrow> fst (safe_parse_json loads s) = Inr (JObject []))
   \<and> (loads s = Inl e \<and> fst e = JSONDecodeError
        \<and> CHR ''{'' \<in> set s \<and> CHR ''}'' \<in> set s
      \<longrightarrow> fst (safe_parse_json loads s) =
           (case loads (py_slice s (py_find s CHR ''{'') (py_rfind s CHR ''}'' + 1)) of
              Inr v' \<Rightarrow> Inr v'
            | Inl e' \<Rightarrow> if fst e' = JSONDecodeError \<or> fst e' = ValueError
                        then Inr (JObject []) else Inl e'))
   \<and> (CHR ''{'' \<notin> set pre \<and> CHR ''}'' \<notin> set post
      \<longrightarrow> py_slice (pre @ CHR ''{'' # body @ CHR ''}'' # post)
            (py_find (pre @ CHR ''{'' # body @ CHR ''}'' # post) CHR ''{'')
            (py_rfind (pre @ CHR ''{'' # body @ CHR ''}'' # post) CHR ''}'' + 1)
          = CHR ''{'' # body @ [CHR ''}''])"
proof (intro conjI impI)
  assume "\<forall>x e. loads x = Inl e \<longrightarrow> fst e = JSONDecodeError"
  then show "\<exists>v. fst (safe_parse_json loads s) = Inr v"
    by (rule safe_parse_json_returns)
next
  assume "loads s = Inl e \<and> fst e \<noteq> JSONDecodeError \<and> fst e \<noteq> ValueError"
  then show "fst (safe_parse_json loads s) = Inl e"
    using safe_parse_json_propagates [of loads s e] by blast
next
  assume "loads s = Inr v"
  then show "fst (safe_parse_json loads s) = Inr v"
    by (simp add: safe_parse_json_parsed)
next
  assume "loads s = Inl e \<and> fst e = JSONDecodeError
        \<and> (CHR ''{'' \<notin> set s \<or> CHR ''}'' \<notin> set s)"
  then show "fst (safe_parse_json loads s) = Inr (JObject [])"
    using safe_parse_json_no_braces [of loads s e] by blast
next
  assume "loads s = Inl e \<and> fst e = JSONDecodeError
        \<and> CHR ''{'' \<in> set s \<and> CHR ''}'' \<in> set s"
  then show "fst (safe_parse_json loads s) =
           (case loads (py_slice s (py_find s CHR ''{'') (py_rfind s CHR ''}'' + 1)) of
              Inr v' \<Rightarrow> Inr v'
            | Inl e' \<Rightarrow> if fst e' = JSONDecodeError \<or> fst e' = ValueError
                        then Inr (JObject []) else Inl e')"
    using safe_parse_json_braces [of loads s e] by blast
next
  assume "CHR ''{'' \<notin> set pre \<and> CHR ''}'' \<notin> set post"
  then show "py_slice (pre @ CHR ''{'' # body @ CHR ''}'' # post)
            (py_find (pre @ CHR ''{'' # body @ CHR ''}'' # post) CHR ''{'')
            (py_rfind (pre @ CHR ''{'' # body @ CHR ''}'' # post) CHR ''}'' + 1)
          = CHR ''{'' # body @ [CHR ''}'']"
    using wrapped_object_slice [of pre post body] by blast
qed

text \<open>
  With the stand-in parser: an object wrapped in text is extracted and parsed; the object
  alone is parsed; a text without braces gives the empty object; the substring taken from
  a wrapped object is the object; and the parser's \<open>RecursionError\<close> reaches the caller.
\<close>

theorem safe_parse_json_contract_witness:
  "(\<exists>v. fst (safe_parse_json example_loads (''Sure: '' @ example_object @ '' Done.''))
            = Inr v)
   \<and> fst (safe_parse_json example_loads (''Sure: '' @ example_object @ '' Done.''))
       = Inr (JObject [(''a'', JNumber 1)])
   \<and> fst (safe_parse_json example_loads example_object)
       = Inr (JObject [(''a'', JNumber 1)])
   \<and> fst (safe_parse_json example_loads ''no json here'') = Inr (JObject [])
   \<and> py_slice ''Sure: {x} Done.'' (py_find ''Sure: {x} Done.'' CHR ''{'')
        (py_rfind ''Sure: {x} Done.'' CHR ''}'' + 1) = ''{x}''
   \<and> fst (safe_parse_json nesting_loads
        (replicate 2000 CHR ''['' @ replicate 2000 CHR '']''))
       = Inl (RecursionError, ''maximum recursion depth exceeded'')"
proof -
  note t = safe_parse_json_contract [where loads = example_loads]
  have a: "\<exists>v. fst (safe_parse_json example_loads
              (''Sure: '' @ example_object @ '' Done.'')) = Inr v"
    using t [where s = "''Sure: '' @ example_object @ '' Done.''", THEN conjunct1]
      example_loads_raises by (rule mp)
  have w: "example_loads (''Sure: '' @ example_object @ '' Done.'')
            = Inl (JSONDecodeError, ''Expecting value'')
        \<and> fst (JSONDecodeError, ''Expecting value'') = JSONDecodeError
        \<and> CHR ''{'' \<in> set (''Sure: '' @ example_object @ '' Done.'')
        \<and> CHR ''}'' \<in> set (''Sure: '' @ example_object @ '' Done.'')"
    by (simp add: example_loads_def example_object_def)
  have sl: "py_slice (''Sure: '' @ example_object @ '' Done.'')
             (py_find (''Sure: '' @ example_object @ '' Done.'') CHR ''{'')
             (py_rfind (''Sure: '' @ example_object @ '' Done.'') CHR ''}'' + 1)
           = example_object"
    by (simp add: example_object_def py_find_def py_rfind_def py_slice_def slice_index_def)
  have l: "example_loads example_object = Inr (JObject [(''a'', JNumber 1)])"
    by (simp add: example_loads_def)
  have b: "fst (safe_parse_json example_loads (''Sure: '' @ example_object @ '' Done.''))
       = Inr (JObject [(''a'', JNumber 1)])"
    unfolding t [where s = "''Sure: '' @ example_object @ '' Done.''"
        and e = "(JSONDecodeError, ''Expecting value'')",
        THEN conjunct2, THEN conjunct2, THEN conjunct2, THEN conjunct2, THEN conjunct1,
        THEN mp, OF w] sl l
    by simp
  have c: "fst (safe_parse_json example_loads example_object)
       = Inr (JObject [(''a'', JNumber 1)])"
    using t [where s = example_object and v = "JObject [(''a'', JNumber 1)]",
        THEN conjunct2, THEN conjunct2, THEN conjunct1] l by (rule mp)
  have m: "example_loads ''no json here'' = Inl (JSONDecodeError, ''Expecting value'')
        \<and> fst (JSONDecodeError, ''Expecting value'') = JSONDecodeError
        \<and> (CHR ''{'' \<notin> set ''no json here'' \<or> CHR ''}'' \<notin> set ''no json here'')"
    by (simp add: example_loads_def example_object_def)
  have d: "fst (safe_parse_json example_loads ''no json here'') = Inr (JObject [])"
    using t [where s = "''no json here''" and e = "(JSONDecodeError, ''Expecting value'')",
        THEN conjunct2, THEN conjunct2, THEN conjunct2, THEN conjunct1] m by (rule mp)
  have q: "CHR ''{'' \<notin> set ''Sure: '' \<and> CHR ''}'' \<notin> set '' Done.''"
    by simp
  have f: "py_slice ''Sure: {x} Done.'' (py_find ''Sure: {x} Done.'' CHR ''{'')
        (py_rfind ''Sure: {x} Done.'' CHR ''}'' + 1) = ''{x}''"
    using safe_parse_json_contract [where pre = "''Sure: ''" and post = "'' Done.''"
        and body = "''x''",
        THEN conjunct2, THEN conjunct2, THEN conjunct2, THEN conjunct2, THEN conjunct2,
        THEN mp, OF q]
    by simp
  have r: "nesting_loads (replicate 2000 CHR ''['' @ replicate 2000 CHR '']'')
            = Inl (RecursionError, ''maximum recursion depth exceeded'')
        \<and> fst (RecursionError, ''maximum recursion depth exceeded'') \<noteq> JSONDecodeError
        \<and> fst (RecursionError, ''maximum recursion depth exceeded'') \<noteq> ValueError"
    using deep_nesting by simp
  have g: "fst (safe_parse_json nesting_loads
        (replicate 2000 CHR ''['' @ replicate 2000 CHR '']''))
       = Inl (RecursionError, ''maximum recursion depth exceeded'')"
    using safe_parse_json_contract [where loads = nesting_loads
        and s = "replicate 2000 CHR ''['' @ replicate 2000 CHR '']''"
        and e = "(RecursionError, ''maximum recursion depth exceeded'')",
        THEN conjunct2, THEN conjunct1] r by (rule mp)
  from a b c d f g show ?thesis by (intro conjI)
qed

end
